theory Spec2Isabelle
  imports Main "HOL-Library.AList" "HOL-Library.Char_ord" "HOL-Library.List_Lexorder"
begin

section \<open>Values and plain objects\<close>

text \<open>
  JavaScript values as far as the modelled code inspects them. A plain object used as a
  dictionary (\<^verbatim>\<open>StateManager.state\<close>, the renderer's context, an event payload, the tables
  of the event registry, a control's listener table) is an association list of its own
  properties in insertion order; reading a key that is not an own property gives
  \<^verbatim>\<open>undefined\<close>. Keys are taken to be ordinary data keys: names that a plain object
  inherits from \<^verbatim>\<open>Object.prototype\<close>, and keys written like array indices, which
  JavaScript enumerates first and in numeric order, are outside the model.
\<close>

datatype jsval = Undefined | JNull | JBool bool | JNum int | JStr string

type_synonym jsobj = "(string \<times> jsval) list"

definition js_get :: "jsobj \<Rightarrow> string \<Rightarrow> jsval" where
  "js_get obj key = (case map_of obj key of None \<Rightarrow> Undefined | Some v \<Rightarrow> v)"

definition js_set :: "jsobj \<Rightarrow> string \<Rightarrow> jsval \<Rightarrow> jsobj" where
  "js_set obj key v = AList.update key v obj"

definition js_keys :: "jsobj \<Rightarrow> string list" where
  "js_keys obj = map fst obj"

text \<open>\<^verbatim>\<open>{ ...obj }\<close>: a copy with the same own properties in the same order.\<close>

definition js_spread :: "jsobj \<Rightarrow> jsobj" where
  "js_spread obj = obj"

text \<open>\<^verbatim>\<open>new Set([...])\<close> iterated: every element once, at its first position.\<close>

definition js_set_of :: "string list \<Rightarrow> string list" where
  "js_set_of xs = rev (remdups (rev xs))"

section \<open>Reactive store (state-manager.js)\<close>

text \<open>
  A subscriber is a function object; the model keeps its identity and whether its body
  throws. Subscribers are observers: what a callback does besides returning or throwing is
  not modelled, so a callback that re-enters the store is outside the model. Every
  invocation is appended to \<open>trace\<close>, which is how the theorems below speak about who
  was called, with which arguments and in which order.
\<close>

record callback =
  cb_id :: nat
  cb_throws :: bool

datatype change = Change string jsval jsval

datatype gevent =
    GSetState string jsval jsval
  | GRemoveState string jsval
  | GClearState jsobj
  | GUpdateState "change list"
  | GImportState jsobj jsobj
  | GRestoreSnapshot jsobj jsobj

datatype hentry =
    HSetState string jsval jsval
  | HRemoveState string jsval
  | HClearState jsobj
  | HUpdateState "change list"
  | HImportState jsobj jsobj
  | HRestoreSnapshot jsobj jsobj

datatype call =
    KeyCall nat jsval jsval string
  | GlobalCall nat gevent

record store =
  state :: jsobj
  listeners :: "string \<rightharpoonup> callback list"
  globalListeners :: "callback list"
  history :: "hentry list"
  trace :: "call list"

definition maxHistorySize :: nat where
  "maxHistorySize = 50"

text \<open>History entries carry a \<^verbatim>\<open>Date.now()\<close> timestamp in the source; it is left out.\<close>

definition addToHistory :: "hentry \<Rightarrow> store \<Rightarrow> store" where
  "addToHistory entry s =
     (let h = history s @ [entry]
      in s\<lparr>history := (if length h > maxHistorySize then tl h else h)\<rparr>)"

text \<open>
  \<^verbatim>\<open>callbacks.forEach(callback => { try { callback(value, oldValue, key) } catch ... })\<close>:
  each callback is invoked in array order; a throw is caught and only logged.
\<close>

definition notifyStateChange :: "string \<Rightarrow> jsval \<Rightarrow> jsval \<Rightarrow> store \<Rightarrow> store" where
  "notifyStateChange key v oldValue s =
     (case listeners s key of
        None \<Rightarrow> s
      | Some callbacks \<Rightarrow>
          s\<lparr>trace := trace s @ map (\<lambda>cb. KeyCall (cb_id cb) v oldValue key) callbacks\<rparr>)"

definition notifyGlobalListeners :: "gevent \<Rightarrow> store \<Rightarrow> store" where
  "notifyGlobalListeners ev s =
     s\<lparr>trace := trace s @ map (\<lambda>cb. GlobalCall (cb_id cb) ev) (globalListeners s)\<rparr>"

definition setState :: "string \<Rightarrow> jsval \<Rightarrow> store \<Rightarrow> store" where
  "setState key v s =
     (let oldValue = js_get (state s) key;
          s1 = s\<lparr>state := js_set (state s) key v\<rparr>;
          s2 = addToHistory (HSetState key oldValue v) s1;
          s3 = notifyStateChange key v oldValue s2
      in notifyGlobalListeners (GSetState key v oldValue) s3)"

definition getState :: "store \<Rightarrow> string \<Rightarrow> jsval" where
  "getState s key = js_get (state s) key"

definition getAllState :: "store \<Rightarrow> jsobj" where
  "getAllState s = js_spread (state s)"



definition notifyKeys :: "string list \<Rightarrow> jsobj \<Rightarrow> jsobj \<Rightarrow> store \<Rightarrow> store" where
  "notifyKeys keys new old s =
     foldl (\<lambda>t key. notifyStateChange key (js_get new key) (js_get old key) t) s keys"

definition clearState :: "store \<Rightarrow> store" where
  "clearState s =
     (let oldState = js_spread (state s);
          s1 = s\<lparr>state := []\<rparr>;
          s2 = addToHistory (HClearState oldState) s1;
          s3 = notifyKeys (js_keys oldState) [] oldState s2
      in notifyGlobalListeners (GClearState oldState) s3)"

text \<open>
  The argument of \<^verbatim>\<open>importState\<close> and \<^verbatim>\<open>restoreSnapshot\<close>: \<open>None\<close> is a falsy or
  non-object argument, \<open>Some None\<close> an object without a (truthy) \<^verbatim>\<open>state\<close> field.
  The result pairs the returned boolean with the new store.
\<close>

type_synonym exported = "jsobj option option"

definition importState :: "exported \<Rightarrow> store \<Rightarrow> bool \<times> store" where
  "importState exportedData s =
     (case exportedData of
        None \<Rightarrow> (False, s)
      | Some None \<Rightarrow> (False, s)
      | Some (Some st) \<Rightarrow>
          (let oldState = getAllState s;
               s1 = s\<lparr>state := js_spread st\<rparr>;
               s2 = addToHistory (HImportState oldState (state s1)) s1;
               s3 = notifyKeys (js_keys (state s2)) (state s2) oldState s2
           in (True, notifyGlobalListeners (GImportState oldState (state s3)) s3)))"

definition restoreSnapshot :: "exported \<Rightarrow> store \<Rightarrow> bool \<times> store" where
  "restoreSnapshot snapshot s =
     (case snapshot of
        None \<Rightarrow> (False, s)
      | Some None \<Rightarrow> (False, s)
      | Some (Some st) \<Rightarrow>
          (let oldState = getAllState s;
               s1 = s\<lparr>state := js_spread st\<rparr>;
               s2 = addToHistory (HRestoreSnapshot oldState (state s1)) s1;
               allKeys = js_set_of (js_keys oldState @ js_keys (state s2));
               s3 = notifyKeys allKeys (state s2) oldState s2
           in (True, notifyGlobalListeners (GRestoreSnapshot oldState (state s3)) s3)))"

section \<open>Strings and regular expressions of the template engine (event-handler.js)\<close>

text \<open>
  Strings are lists of characters, one per code unit; only code units below 256 are
  represented. The character classes are those of the source's regular expressions:
  \<^verbatim>\<open>\w\<close>, \<^verbatim>\<open>\d\<close>, \<^verbatim>\<open>\s\<close> and the line terminators that \<^verbatim>\<open>.\<close> does not match.
\<close>

definition is_word :: "char \<Rightarrow> bool" where
  "is_word c = (c \<in> set ''abcdefghijklmnopqrstuvwxyzABCDEFGHIJKLMNOPQRSTUVWXYZ0123456789_'')"

definition is_digit :: "char \<Rightarrow> bool" where
  "is_digit c = (c \<in> set ''0123456789'')"

definition is_space :: "char \<Rightarrow> bool" where
  "is_space c = (c \<in> {CHR '' '', CHR 0x09, CHR 0x0A, CHR 0x0B, CHR 0x0C, CHR 0x0D, CHR 0xA0})"

definition is_line_terminator :: "char \<Rightarrow> bool" where
  "is_line_terminator c = (c = CHR 0x0A \<or> c = CHR 0x0D)"

text \<open>\<^verbatim>\<open>s.includes(sub)\<close>.\<close>

fun str_includes :: "string \<Rightarrow> string \<Rightarrow> bool" where
  "str_includes [] sub = (sub = [])"
| "str_includes (c # cs) sub = (take (length sub) (c # cs) = sub \<or> str_includes cs sub)"

text \<open>
  A matcher says whether a regular expression matches at the very start of a string, and
  if so gives the text of its capture group and the length of the match.
  \<open>var_match\<close> is \<^verbatim>\<open>opener(\w+)closer\<close>; \<open>m_hash_expr\<close> is \<^verbatim>\<open>#{(.+?)}\<close>, whose group is
  one character followed by the shortest run up to the next \<^verbatim>\<open>}\<close>, none of them a line
  terminator.
\<close>

definition var_match :: "string \<Rightarrow> string \<Rightarrow> string \<Rightarrow> (string \<times> nat) option" where
  "var_match opener closer s =
     (if take (length opener) s = opener then
        (let r = drop (length opener) s; w = takeWhile is_word r; rest = dropWhile is_word r
         in if w \<noteq> [] \<and> take (length closer) rest = closer
            then Some (w, length opener + length w + length closer) else None)
      else None)"

definition m_hash_var :: "string \<Rightarrow> (string \<times> nat) option" where
  "m_hash_var = var_match ''#{'' ''}''"

definition m_dollar_var :: "string \<Rightarrow> (string \<times> nat) option" where
  "m_dollar_var = var_match ''${'' ''}''"

definition m_brace_var :: "string \<Rightarrow> (string \<times> nat) option" where
  "m_brace_var = var_match ''{{'' ''}}''"

definition m_hash_expr :: "string \<Rightarrow> (string \<times> nat) option" where
  "m_hash_expr s =
     (if take 2 s = ''#{'' then
        (case drop 2 s of
           [] \<Rightarrow> None
         | c # r \<Rightarrow>
             (let e = c # takeWhile (\<lambda>x. x \<noteq> CHR ''}'') r;
                  rest = dropWhile (\<lambda>x. x \<noteq> CHR ''}'') r
              in if rest \<noteq> [] \<and> (\<forall>x \<in> set e. \<not> is_line_terminator x)
                 then Some (e, length e + 3) else None))
      else None)"

text \<open>
  \<^verbatim>\<open>s.replace(/re/g, (match, group) => ...)\<close>: scan from the left; where the expression
  matches, emit the callback's result and go on after the match, else keep the character.
\<close>

function gsub :: "(string \<Rightarrow> (string \<times> nat) option) \<Rightarrow> (string \<Rightarrow> string \<Rightarrow> string) \<Rightarrow> string \<Rightarrow> string" where
  "gsub m f [] = []"
| "gsub m f (c # cs) =
     (case m (c # cs) of
        Some (g, n) \<Rightarrow> f (take (Suc (n - 1)) (c # cs)) g @ gsub m f (drop (n - 1) cs)
      | None \<Rightarrow> c # gsub m f cs)"
  by pat_completeness auto
termination
  by (relation "measure (\<lambda>(m, f, s). length s)") auto

text \<open>The successive matches that \<open>gsub\<close> visits: matched text and capture group.\<close>

function matches :: "(string \<Rightarrow> (string \<times> nat) option) \<Rightarrow> string \<Rightarrow> (string \<times> string) list" where
  "matches m [] = []"
| "matches m (c # cs) =
     (case m (c # cs) of
        Some (g, n) \<Rightarrow> (take (Suc (n - 1)) (c # cs), g) # matches m (drop (n - 1) cs)
      | None \<Rightarrow> matches m cs)"
  by pat_completeness auto
termination
  by (relation "measure (\<lambda>(m, s). length s)") auto

section \<open>Template engine: ContextRenderer\<close>

fun show_nat :: "nat \<Rightarrow> string" where
  "show_nat n = (if n < 10 then [char_of (48 + n)] else show_nat (n div 10) @ [char_of (48 + n mod 10)])"

definition show_int :: "int \<Rightarrow> string" where
  "show_int i = (if i < 0 then CHR ''-'' # show_nat (nat (- i)) else show_nat (nat i))"

text \<open>
  \<^verbatim>\<open>formatValue\<close>. \<open>JNum\<close> is an integral number; numbers with a fraction (formatted by
  \<^verbatim>\<open>toFixed(2)\<close>) and \<^verbatim>\<open>Date\<close> objects are not among the modelled values.
\<close>

fun formatValue :: "jsval \<Rightarrow> string" where
  "formatValue Undefined = []"
| "formatValue JNull = []"
| "formatValue (JNum i) = show_int i"
| "formatValue (JBool b) = (if b then ''Yes'' else ''No'')"
| "formatValue (JStr t) = t"

text \<open>\<^verbatim>\<open>JSON.stringify\<close> of a value, as the text that \<^verbatim>\<open>replace\<close> receives.\<close>

definition hex_digit :: "nat \<Rightarrow> char" where
  "hex_digit d = (''0123456789abcdef'' ! d)"

definition json_char :: "char \<Rightarrow> string" where
  "json_char c =
     (if c = CHR 0x22 then [CHR 0x5C, CHR 0x22]
      else if c = CHR 0x5C then [CHR 0x5C, CHR 0x5C]
      else if c = CHR 0x08 then [CHR 0x5C, CHR ''b'']
      else if c = CHR 0x0C then [CHR 0x5C, CHR ''f'']
      else if c = CHR 0x0A then [CHR 0x5C, CHR ''n'']
      else if c = CHR 0x0D then [CHR 0x5C, CHR ''r'']
      else if c = CHR 0x09 then [CHR 0x5C, CHR ''t'']
      else if (of_char c :: nat) < 32
        then [CHR 0x5C, CHR ''u'', CHR ''0'', CHR ''0'', hex_digit (of_char c div 16), hex_digit (of_char c mod 16)]
      else [c])"

definition json_string :: "string \<Rightarrow> string" where
  "json_string t = [CHR 0x22] @ concat (map json_char t) @ [CHR 0x22]"

fun json_stringify :: "jsval \<Rightarrow> string" where
  "json_stringify Undefined = ''undefined''"
| "json_stringify JNull = ''null''"
| "json_stringify (JBool b) = (if b then ''true'' else ''false'')"
| "json_stringify (JNum i) = show_int i"
| "json_stringify (JStr t) = json_string t"

text \<open>
  The replacement text of \<^verbatim>\<open>replace(regex, string)\<close>: \<^verbatim>\<open>$$\<close>, \<^verbatim>\<open>$&\<close>, \<^verbatim>\<open>$`\<close> and \<^verbatim>\<open>$'\<close>
  are patterns; the expression has no capture group, so \<^verbatim>\<open>$1\<close> stays as it is.
\<close>

fun expand_replacement :: "string \<Rightarrow> string \<Rightarrow> string \<Rightarrow> string \<Rightarrow> string" where
  "expand_replacement [] matched pre post = []"
| "expand_replacement [c] matched pre post = [c]"
| "expand_replacement (c # d # r) matched pre post =
     (if c = CHR ''$'' \<and> d = CHR ''$'' then CHR ''$'' # expand_replacement r matched pre post
      else if c = CHR ''$'' \<and> d = CHR ''&'' then matched @ expand_replacement r matched pre post
      else if c = CHR ''$'' \<and> d = CHR 0x60 then pre @ expand_replacement r matched pre post
      else if c = CHR ''$'' \<and> d = CHR 0x27 then post @ expand_replacement r matched pre post
      else c # expand_replacement (d # r) matched pre post)"

text \<open>
  \<^verbatim>\<open>s.replace(new RegExp(`\\b${key}\\b`, 'g'), repl)\<close>. The key is read literally: a key
  with regular-expression metacharacters, or the empty key, is outside the model.
  \<open>pre\<close> is the part of the subject already passed.
\<close>

definition word_boundary :: "string \<Rightarrow> string \<Rightarrow> bool" where
  "word_boundary pre post =
     ((pre \<noteq> [] \<and> is_word (last pre)) \<noteq> (post \<noteq> [] \<and> is_word (hd post)))"

function replace_word :: "string \<Rightarrow> string \<Rightarrow> string \<Rightarrow> string \<Rightarrow> string" where
  "replace_word key repl pre [] = []"
| "replace_word key repl pre (c # cs) =
     (if key \<noteq> [] \<and> take (length key) (c # cs) = key
         \<and> word_boundary pre (c # cs)
         \<and> word_boundary (pre @ key) (drop (length key) (c # cs))
      then expand_replacement repl key pre (drop (length key) (c # cs))
             @ replace_word key repl (pre @ key) (drop (length key - 1) cs)
      else c # replace_word key repl (pre @ [c]) cs)"
  by pat_completeness auto
termination
  by (relation "measure (\<lambda>(key, repl, pre, s). length s)") auto

definition substituteContext :: "jsobj \<Rightarrow> string \<Rightarrow> string" where
  "substituteContext ctx expression =
     foldl (\<lambda>e key. replace_word key (json_stringify (js_get ctx key)) [] e) expression (js_keys ctx)"

text \<open>\<^verbatim>\<open>/^[\d\s+\-*/.()]+$/.test(s)\<close>.\<close>

definition safe_char :: "char \<Rightarrow> bool" where
  "safe_char c = (is_digit c \<or> is_space c \<or> c \<in> set ''+-*/.()'')"

definition safeExpression :: "string \<Rightarrow> bool" where
  "safeExpression s = (s \<noteq> [] \<and> (\<forall>c \<in> set s. safe_char c))"

datatype render_error = InvalidExpression string | UnsafeExpression string

text \<open>
  \<^verbatim>\<open>evaluateExpression\<close>. The evaluator \<open>ev\<close> stands for
  \<^verbatim>\<open>Function(`"use strict"; return (${evalExpression})`)()\<close> of the host: the value of the
  text, or \<open>None\<close> when building or running the function throws.
\<close>

definition evaluateSubstituted :: "(string \<Rightarrow> jsval option) \<Rightarrow> string \<Rightarrow> string \<Rightarrow> render_error + jsval" where
  "evaluateSubstituted ev expression evalExpression =
     (if safeExpression evalExpression then
        (case ev evalExpression of
           Some v \<Rightarrow> Inr v
         | None \<Rightarrow> Inl (InvalidExpression expression))
      else Inl (UnsafeExpression expression))"

definition evaluateExpression :: "(string \<Rightarrow> jsval option) \<Rightarrow> string \<Rightarrow> jsobj \<Rightarrow> render_error + jsval" where
  "evaluateExpression ev expression ctx =
     evaluateSubstituted ev expression (substituteContext ctx expression)"

definition var_callback :: "jsobj \<Rightarrow> string \<Rightarrow> string \<Rightarrow> string" where
  "var_callback ctx match key =
     (if key \<in> set (js_keys ctx) then formatValue (js_get ctx key) else match)"

definition expr_callback :: "(string \<Rightarrow> jsval option) \<Rightarrow> jsobj \<Rightarrow> string \<Rightarrow> string \<Rightarrow> string" where
  "expr_callback ev ctx match expression =
     (case evaluateExpression ev expression ctx of
        Inr v \<Rightarrow> formatValue v
      | Inl err \<Rightarrow> match)"

text \<open>The four replacement passes of \<^verbatim>\<open>render\<close> over the merged context.\<close>

definition render_passes :: "(string \<Rightarrow> jsval option) \<Rightarrow> jsobj \<Rightarrow> string \<Rightarrow> string" where
  "render_passes ev mergedContext text =
     (let r1 = gsub m_hash_var (var_callback mergedContext) text;
          r2 = gsub m_dollar_var (var_callback mergedContext) r1;
          r3 = gsub m_brace_var (var_callback mergedContext) r2
      in gsub m_hash_expr (expr_callback ev mergedContext) r3)"

text \<open>
  The renderer's state. \<open>renderCache\<close> is a \<^verbatim>\<open>Map\<close>: an association list in insertion
  order. Watchers and the context display are not modelled; they read the context only.
\<close>

record renderer =
  "context" :: jsobj
  renderCache :: "(string \<times> string) list"
  cacheEnabled :: bool

definition maxCacheSize :: nat where
  "maxCacheSize = 1000"

text \<open>
  \<^verbatim>\<open>JSON.stringify(obj, Object.keys(obj).sort())\<close> for an object of modelled values:
  the properties in key order, those with value \<^verbatim>\<open>undefined\<close> left out.
\<close>

definition hashObject :: "jsobj \<Rightarrow> string" where
  "hashObject obj =
     ''{'' @ concat (map (\<lambda>(i, k). (if i = 0 then [] else '','') @ json_string k @ '':'' @ json_stringify (js_get obj k))
                        (enumerate 0 (filter (\<lambda>k. js_get obj k \<noteq> Undefined) (sort (js_keys obj)))))
         @ ''}''"

definition createCacheKey :: "string \<Rightarrow> jsobj \<Rightarrow> string" where
  "createCacheKey text customContext = text @ ''|'' @ hashObject customContext"

definition addToCache :: "string \<Rightarrow> string \<Rightarrow> renderer \<Rightarrow> renderer" where
  "addToCache key v r =
     (let c = (if length (renderCache r) \<ge> maxCacheSize then tl (renderCache r) else renderCache r)
      in r\<lparr>renderCache := AList.update key v c\<rparr>)"

definition clearCache :: "renderer \<Rightarrow> renderer" where
  "clearCache r = r\<lparr>renderCache := []\<rparr>"

text \<open>\<^verbatim>\<open>{ ...this.context, ...customContext }\<close>.\<close>

definition js_merge :: "jsobj \<Rightarrow> jsobj \<Rightarrow> jsobj" where
  "js_merge a b = foldl (\<lambda>obj (k, v). js_set obj k v) a b"

definition render :: "(string \<Rightarrow> jsval option) \<Rightarrow> string \<Rightarrow> jsobj \<Rightarrow> renderer \<Rightarrow> string \<times> renderer" where
  "render ev text customContext r =
     (let cacheKey = createCacheKey text customContext
      in case (if cacheEnabled r then map_of (renderCache r) cacheKey else None) of
           Some cached \<Rightarrow> (cached, r)
         | None \<Rightarrow>
             (let mergedContext = js_merge (context r) customContext;
                  rendered = render_passes ev mergedContext text
              in (rendered, if cacheEnabled r then addToCache cacheKey rendered r else r)))"

text \<open>\<^verbatim>\<open>cacheKey.split('|')[0]\<close> is the cache key up to its first \<^verbatim>\<open>|\<close>.\<close>

definition affectedByChange :: "string list \<Rightarrow> string \<Rightarrow> bool" where
  "affectedByChange changedKeys cacheKey =
     (let text = takeWhile (\<lambda>c. c \<noteq> CHR ''|'') cacheKey
      in list_ex (\<lambda>key. str_includes text (''#{'' @ key @ ''}'')
                        \<or> str_includes text (''${'' @ key @ ''}'')
                        \<or> str_includes text (''{{'' @ key @ ''}}'')) changedKeys)"

definition invalidateCache :: "string list \<Rightarrow> renderer \<Rightarrow> renderer" where
  "invalidateCache changedKeys r =
     (if changedKeys = [] then clearCache r
      else r\<lparr>renderCache := filter (\<lambda>(cacheKey, v). \<not> affectedByChange changedKeys cacheKey) (renderCache r)\<rparr>)"

definition setContext :: "string \<Rightarrow> jsval \<Rightarrow> renderer \<Rightarrow> renderer" where
  "setContext key v r =
     (let oldValue = js_get (context r) key;
          r1 = r\<lparr>context := js_set (context r) key v\<rparr>
      in if oldValue \<noteq> v then invalidateCache [key] r1 else r1)"

definition updateContext :: "jsobj \<Rightarrow> renderer \<Rightarrow> renderer" where
  "updateContext updates r =
     (let changedKeys = filter (\<lambda>key. js_get (context r) key \<noteq> js_get updates key) (js_keys updates);
          r1 = r\<lparr>context := foldl (\<lambda>c key. js_set c key (js_get updates key)) (context r) changedKeys\<rparr>
      in if changedKeys \<noteq> [] then invalidateCache changedKeys r1 else r1)"

section \<open>Properties of the reactive store\<close>

lemma addToHistory_fields [simp]:
  "state (addToHistory e s) = state s"
  "listeners (addToHistory e s) = listeners s"
  "globalListeners (addToHistory e s) = globalListeners s"
  "trace (addToHistory e s) = trace s"
  by (simp_all add: addToHistory_def Let_def)

lemma notifyStateChange_fields [simp]:
  "state (notifyStateChange k v ov s) = state s"
  "listeners (notifyStateChange k v ov s) = listeners s"
  "globalListeners (notifyStateChange k v ov s) = globalListeners s"
  by (simp_all add: notifyStateChange_def split: option.splits)

lemma notifyStateChange_trace:
  "trace (notifyStateChange k v ov s) =
     trace s @ map (\<lambda>cb. KeyCall (cb_id cb) v ov k) (case listeners s k of None \<Rightarrow> [] | Some cbs \<Rightarrow> cbs)"
  by (simp add: notifyStateChange_def split: option.splits)

lemma notifyGlobalListeners_fields [simp]:
  "state (notifyGlobalListeners ev s) = state s"
  "listeners (notifyGlobalListeners ev s) = listeners s"
  "globalListeners (notifyGlobalListeners ev s) = globalListeners s"
  "trace (notifyGlobalListeners ev s) =
     trace s @ map (\<lambda>cb. GlobalCall (cb_id cb) ev) (globalListeners s)"
  by (simp_all add: notifyGlobalListeners_def)

lemma notifyKeys_fields [simp]:
  "state (notifyKeys ks new old s) = state s"
  "listeners (notifyKeys ks new old s) = listeners s"
  "globalListeners (notifyKeys ks new old s) = globalListeners s"
  unfolding notifyKeys_def by (induction ks arbitrary: s) simp_all

definition subscribers :: "store \<Rightarrow> string \<Rightarrow> callback list" where
  "subscribers s key = (case listeners s key of None \<Rightarrow> [] | Some cbs \<Rightarrow> cbs)"

definition keyCalls :: "store \<Rightarrow> string \<Rightarrow> jsval \<Rightarrow> jsval \<Rightarrow> call list" where
  "keyCalls s key v oldValue = map (\<lambda>cb. KeyCall (cb_id cb) v oldValue key) (subscribers s key)"

definition globalCalls :: "store \<Rightarrow> gevent \<Rightarrow> call list" where
  "globalCalls s ev = map (\<lambda>cb. GlobalCall (cb_id cb) ev) (globalListeners s)"

lemma notifyKeys_trace:
  "trace (notifyKeys ks new old s) =
     trace s @ concat (map (\<lambda>k. keyCalls s k (js_get new k) (js_get old k)) ks)"
  unfolding notifyKeys_def
proof (induction ks arbitrary: s)
  case Nil
  show ?case by simp
next
  case (Cons k ks)
  have same: "\<And>j a b. keyCalls (notifyStateChange k (js_get new k) (js_get old k) s) j a b = keyCalls s j a b"
    by (simp add: keyCalls_def subscribers_def)
  show ?case
    by (simp add: Cons.IH same notifyStateChange_trace keyCalls_def subscribers_def)
qed


lemma setState_fields [simp]:
  "listeners (setState key v s) = listeners s"
  "globalListeners (setState key v s) = globalListeners s"
  "state (setState key v s) = js_set (state s) key v"
  by (simp_all add: setState_def Let_def)

lemma js_get_js_set [simp]: "js_get (js_set obj key v) key = v"
  by (simp add: js_get_def js_set_def update_conv')




definition cbA :: callback where "cbA = \<lparr>cb_id = 1, cb_throws = False\<rparr>"
definition cbB :: callback where "cbB = \<lparr>cb_id = 2, cb_throws = True\<rparr>"



lemma keyCalls_cong:
  "listeners t = listeners s \<Longrightarrow> keyCalls t = keyCalls s"
  by (intro ext) (simp add: keyCalls_def subscribers_def)

lemma importState_trace:
  "trace (snd (importState (Some (Some st)) s)) =
     trace s @ concat (map (\<lambda>k. keyCalls s k (js_get st k) (js_get (state s) k)) (js_keys st))
             @ globalCalls s (GImportState (state s) st)"
proof -
  let ?s2 = "addToHistory (HImportState (state s) st) (s\<lparr>state := st\<rparr>)"
  have k: "keyCalls ?s2 = keyCalls s"
    by (rule keyCalls_cong) simp
  show ?thesis
    by (simp add: importState_def getAllState_def js_spread_def Let_def notifyKeys_trace k
        globalCalls_def)
qed

lemma restoreSnapshot_trace:
  "trace (snd (restoreSnapshot (Some (Some st)) s)) =
     trace s @ concat (map (\<lambda>k. keyCalls s k (js_get st k) (js_get (state s) k))
                        (js_set_of (js_keys (state s) @ js_keys st)))
             @ globalCalls s (GRestoreSnapshot (state s) st)"
proof -
  let ?s2 = "addToHistory (HRestoreSnapshot (state s) st) (s\<lparr>state := st\<rparr>)"
  have k: "keyCalls ?s2 = keyCalls s"
    by (rule keyCalls_cong) simp
  show ?thesis
    by (simp add: restoreSnapshot_def getAllState_def js_spread_def Let_def notifyKeys_trace k
        globalCalls_def)
qed

lemma set_js_set_of [simp]: "set (js_set_of xs) = set xs"
  by (simp add: js_set_of_def)

text \<open>
  \<^verbatim>\<open>restoreSnapshot\<close> notifies the union of the old and the new keys: a subscriber of any
  key of the old or of the new state is called with the key's new and old value.
\<close>

lemma restoreSnapshot_notifies_union:
  assumes "k \<in> set (js_keys (state s)) \<union> set (js_keys st)" and "cb \<in> set (subscribers s k)"
  shows "KeyCall (cb_id cb) (js_get st k) (js_get (state s) k) k
           \<in> set (trace (snd (restoreSnapshot (Some (Some st)) s)))"
proof -
  have "KeyCall (cb_id cb) (js_get st k) (js_get (state s) k) k
          \<in> set (keyCalls s k (js_get st k) (js_get (state s) k))"
    using assms(2) by (auto simp: keyCalls_def)
  moreover have "k \<in> set (js_set_of (js_keys (state s) @ js_keys st))"
    using assms(1) by simp
  ultimately show ?thesis
    unfolding restoreSnapshot_trace by auto
qed

text \<open>\<^verbatim>\<open>importState\<close> calls per-key subscribers for keys of the new state only.\<close>

lemma importState_notifies_new_keys_only:
  assumes "KeyCall i v ov k \<in> set (trace (snd (importState (Some (Some st)) s)))"
      and "KeyCall i v ov k \<notin> set (trace s)"
  shows "k \<in> set (js_keys st)"
  using assms unfolding importState_trace
  by (auto simp: keyCalls_def globalCalls_def)

definition storeA :: store where
  "storeA = \<lparr>state = [(''a'', JNum 1), (''b'', JNum 2)],
              listeners = [''a'' \<mapsto> [cbA], ''b'' \<mapsto> [cbB]],
              globalListeners = [], history = [], trace = []\<rparr>"

text \<open>
  C6. Replacing the full state should notify the per-key subscribers of every key of the
  old or the new state. With state \<open>{a: 1, b: 2}\<close>, one subscriber on \<open>a\<close> and one on
  \<open>b\<close>, replacing the state by \<open>{b: 3}\<close>: \<^verbatim>\<open>restoreSnapshot\<close> calls the subscriber of
  the removed key \<open>a\<close> with \<open>(undefined, 1)\<close>, \<^verbatim>\<open>importState\<close> does not call it at all.
\<close>

theorem importState_skips_removed_key:
  "trace (snd (importState (Some (Some [(''b'', JNum 3)])) storeA)) =
     [KeyCall 2 (JNum 3) (JNum 2) ''b'']
   \<and> trace (snd (restoreSnapshot (Some (Some [(''b'', JNum 3)])) storeA)) =
     [KeyCall 1 Undefined (JNum 1) ''a'', KeyCall 2 (JNum 3) (JNum 2) ''b'']"
  by (simp add: importState_trace restoreSnapshot_trace storeA_def keyCalls_def subscribers_def
      globalCalls_def js_keys_def js_get_def js_set_of_def cbA_def cbB_def)

section \<open>Properties of the template engine\<close>

lemma gsub_unchanged:
  "(\<And>mt g. (mt, g) \<in> set (matches m s) \<Longrightarrow> f mt g = mt) \<Longrightarrow> gsub m f s = s"
proof (induction m f s rule: gsub.induct)
  case (1 m f)
  show ?case by simp
next
  case (2 m f c cs)
  show ?case
  proof (cases "m (c # cs)")
    case None
    with 2 show ?thesis by simp
  next
    case (Some p)
    obtain g n where p: "p = (g, n)" by (cases p)
    have here: "f (c # take (n - 1) cs) g = c # take (n - 1) cs"
      using "2.prems" [of "c # take (n - 1) cs" g] Some p by simp
    have rest: "gsub m f (drop (n - 1) cs) = drop (n - 1) cs"
      using "2.IH"(2) [OF Some p [symmetric]] "2.prems" Some p by simp
    show ?thesis
      using Some p here rest by simp
  qed
qed

definition ctxJohn :: jsobj where
  "ctxJohn = [(''UserName'', JStr ''John Doe''), (''Total'', JNum 25)]"

text \<open>An evaluator that throws on every text; the examples never reach it.\<close>

definition ev_throws :: "string \<Rightarrow> jsval option" where
  "ev_throws s = None"






text \<open>
  A whole pass: when every expression placeholder that the pass finds is unsafe after
  substitution, the pass returns its input unchanged.
\<close>

lemma unsafe_expressions_left_in_place:
  assumes "\<And>mt e. (mt, e) \<in> set (matches m_hash_expr s) \<Longrightarrow>
             \<exists>c \<in> set (substituteContext ctx e). \<not> safe_char c"
  shows "gsub m_hash_expr (expr_callback ev ctx) s = s"
proof (rule gsub_unchanged)
  fix mt e
  assume "(mt, e) \<in> set (matches m_hash_expr s)"
  then have "\<not> safeExpression (substituteContext ctx e)"
    using assms by (auto simp: safeExpression_def)
  then show "expr_callback ev ctx mt e = mt"
    by (simp add: expr_callback_def evaluateExpression_def evaluateSubstituted_def)
qed


definition rendererJohn :: renderer where
  "rendererJohn = \<lparr>context = ctxJohn, renderCache = [], cacheEnabled = True\<rparr>"

lemma render_bar_John:
  "render ev_throws ''Hi|#{UserName}'' [] rendererJohn =
     (''Hi|John Doe'', rendererJohn\<lparr>renderCache := [(''Hi|#{UserName}|{}'', ''Hi|John Doe'')]\<rparr>)"
  by code_simp

lemma setContext_bar_Ann:
  "setContext ''UserName'' (JStr ''Ann'')
     (rendererJohn\<lparr>renderCache := [(''Hi|#{UserName}|{}'', ''Hi|John Doe'')]\<rparr>)
   = \<lparr>context = [(''UserName'', JStr ''Ann''), (''Total'', JNum 25)],
      renderCache = [(''Hi|#{UserName}|{}'', ''Hi|John Doe'')], cacheEnabled = True\<rparr>"
  by code_simp

lemma render_bar_stale:
  "fst (render ev_throws ''Hi|#{UserName}'' []
     \<lparr>context = [(''UserName'', JStr ''Ann''), (''Total'', JNum 25)],
      renderCache = [(''Hi|#{UserName}|{}'', ''Hi|John Doe'')], cacheEnabled = True\<rparr>)
   = ''Hi|John Doe''"
  by code_simp

lemma render_passes_bar_Ann:
  "render_passes ev_throws [(''UserName'', JStr ''Ann''), (''Total'', JNum 25)] ''Hi|#{UserName}''
     = ''Hi|Ann''"
  by code_simp

text \<open>
  C7. After a context key has changed through \<^verbatim>\<open>setContext\<close>, a cache entry whose text
  refers to the key should be gone, so that rendering the text again uses the new
  value. For the text \<^verbatim>\<open>Hi|#{UserName}\<close>: it is rendered and cached with \<open>UserName\<close>
  being John Doe; \<^verbatim>\<open>setContext('UserName', 'Ann')\<close> leaves the entry in the cache, because
  the invalidation looks only at the cache key up to its first \<^verbatim>\<open>|\<close>, which is \<^verbatim>\<open>Hi\<close>;
  rendering the same text again returns the cached \<^verbatim>\<open>Hi|John Doe\<close>, where the four passes
  over the new context give \<^verbatim>\<open>Hi|Ann\<close>.
\<close>

theorem cache_entry_with_bar_survives_setContext:
  "renderCache (setContext ''UserName'' (JStr ''Ann'')
      (snd (render ev_throws ''Hi|#{UserName}'' [] rendererJohn)))
     = [(createCacheKey ''Hi|#{UserName}'' [], ''Hi|John Doe'')]
   \<and> fst (render ev_throws ''Hi|#{UserName}'' []
        (setContext ''UserName'' (JStr ''Ann'')
          (snd (render ev_throws ''Hi|#{UserName}'' [] rendererJohn))))
       = ''Hi|John Doe''
   \<and> render_passes ev_throws
        (context (setContext ''UserName'' (JStr ''Ann'')
          (snd (render ev_throws ''Hi|#{UserName}'' [] rendererJohn))))
        ''Hi|#{UserName}''
       = ''Hi|Ann''"
proof -
  have key: "createCacheKey ''Hi|#{UserName}'' [] = ''Hi|#{UserName}|{}''"
    by code_simp
  show ?thesis
    by (simp add: render_bar_John setContext_bar_Ann render_bar_stale render_passes_bar_Ann key)
qed

text \<open>
  For a text without \<^verbatim>\<open>|\<close> the invalidation does what C7 says: after
  \<^verbatim>\<open>invalidateCache\<close> with a key that the text refers to in one of the three syntaxes,
  the cache has no entry for the text, whatever the extra context.
\<close>

lemma takeWhile_bar_createCacheKey:
  "CHR ''|'' \<notin> set text \<Longrightarrow>
     takeWhile (\<lambda>c. c \<noteq> CHR ''|'') (createCacheKey text customContext) = text"
  by (auto simp: createCacheKey_def takeWhile_tail)

lemma map_of_filter_None:
  "\<not> P k \<Longrightarrow> map_of (filter (\<lambda>(k', v). P k') xs) k = None"
  by (induction xs) auto

lemma invalidateCache_removes_entry:
  assumes "CHR ''|'' \<notin> set text" and "key \<in> set changedKeys"
      and "str_includes text (''#{'' @ key @ ''}'') \<or> str_includes text (''${'' @ key @ ''}'')
           \<or> str_includes text (''{{'' @ key @ ''}}'')"
  shows "map_of (renderCache (invalidateCache changedKeys r)) (createCacheKey text customContext) = None"
proof -
  have "affectedByChange changedKeys (createCacheKey text customContext)"
    using assms by (auto simp: affectedByChange_def takeWhile_bar_createCacheKey list_ex_iff)
  then have "map_of (filter (\<lambda>(k', v). \<not> affectedByChange changedKeys k') (renderCache r))
               (createCacheKey text customContext) = None"
    by (intro map_of_filter_None) simp
  then show ?thesis
    using assms(2) by (auto simp: invalidateCache_def)
qed


subsection \<open>Rendering a rendered text\<close>





lemma js_merge_empty [simp]: "js_merge ctx [] = ctx"
  by (simp add: js_merge_def)




lemma render_keeps_context [simp]:
  "context (snd (render ev t c r)) = context r"
  by (simp add: render_def addToCache_def Let_def split: option.splits)













section \<open>Event registry: EventHandler (event-handler.js)\<close>

text \<open>
  Function objects are compared by reference. A function of the application is
  \<open>UserFn\<close> with its identity; the function that \<^verbatim>\<open>bootstrapHandler\<close> or
  \<^verbatim>\<open>bootstrapDelegationHandler\<close> returns is a new object, \<open>WrapperFn\<close> with the number
  of its allocation. A \<open>wrapper\<close> is that object with the properties \<^verbatim>\<open>on\<close> gives it
  (\<^verbatim>\<open>oneOff\<close>, \<^verbatim>\<open>uidEvent\<close>) and what its closure holds (the wrapped function and the
  selector).
\<close>

datatype fnref = UserFn nat | WrapperFn nat

datatype euid = UidStr string | UidNum nat

record wrapper =
  w_ref :: nat
  w_fn :: fnref
  w_selector :: "string option"
  w_oneOff :: bool
  w_uidEvent :: euid

type_synonym eventData = "(string \<times> wrapper list) list"
type_synonym events = "(string \<times> eventData) list"

text \<open>
  A DOM element: the \<^verbatim>\<open>uidEvent\<close> property that the registry puts on it, the listeners
  added with \<^verbatim>\<open>addEventListener\<close> (type and listener, in order), its parent node and
  its child nodes. Elements live in a store and are referred to by address.
\<close>

record element =
  el_uidEvent :: "nat option"
  el_listeners :: "(string \<times> wrapper) list"
  parentNode :: "nat option"
  childNodes :: "nat list"

text \<open>
  The browser-side state that the modelled code shares: the elements and how many have
  been created (\<^verbatim>\<open>document.createElement\<close> gives the next address), the registry
  \<^verbatim>\<open>EventHandler.eventRegistry\<close> (keyed by \<^verbatim>\<open>element.uidEvent\<close>), the counter
  \<^verbatim>\<open>EventHandler.uidEvent\<close>, the number of wrapper functions allocated so far, the keys
  that \<^verbatim>\<open>DataManager.elementMap\<close> holds for each element, and whether
  \<^verbatim>\<open>window.EventHandler\<close> and \<^verbatim>\<open>window.DataManager\<close> are installed.
\<close>

record world =
  elements :: "nat \<rightharpoonup> element"
  created :: nat
  eventRegistry :: "nat \<rightharpoonup> events"
  uidEvent :: nat
  allocated :: nat
  elementMap :: "nat \<rightharpoonup> string list"
  has_EventHandler :: bool
  has_DataManager :: bool

datatype js_error = TypeError string | RangeError string

definition customEvents :: "string \<Rightarrow> string" where
  "customEvents t = (if t = ''mouseenter'' then ''mouseover''
                     else if t = ''mouseleave'' then ''mouseout'' else t)"

text \<open>
  \<^verbatim>\<open>normalizeEventType\<close>: the event up to its first dot (mapped by \<^verbatim>\<open>customEvents\<close>), and
  the rest from that dot on.
\<close>

definition normalizeEventType :: "string \<Rightarrow> string \<times> string" where
  "normalizeEventType event =
     (customEvents (takeWhile (\<lambda>c. c \<noteq> CHR ''.'') event), dropWhile (\<lambda>c. c \<noteq> CHR ''.'') event)"

definition the_element :: "world \<Rightarrow> nat \<Rightarrow> element" where
  "the_element w el =
     (case elements w el of
        Some e \<Rightarrow> e
      | None \<Rightarrow> \<lparr>el_uidEvent = None, el_listeners = [], parentNode = None, childNodes = []\<rparr>)"

text \<open>A \<^verbatim>\<open>uidEvent\<close> property that is absent or 0 is falsy.\<close>

definition truthy_uid :: "element \<Rightarrow> nat option" where
  "truthy_uid e = (case el_uidEvent e of Some n \<Rightarrow> (if n = 0 then None else Some n) | None \<Rightarrow> None)"

text \<open>
  \<^verbatim>\<open>makeEventUid(element, uid)\<close>:
  \<^verbatim>\<open>uid && `${uid}::${this.uidEvent++}` || element.uidEvent || this.uidEvent++\<close>.
\<close>

definition makeEventUid :: "nat \<Rightarrow> string option \<Rightarrow> world \<Rightarrow> euid \<times> world" where
  "makeEventUid el uid w =
     (case (case uid of Some u \<Rightarrow> (if u = [] then None else Some u) | None \<Rightarrow> None) of
        Some u \<Rightarrow> (UidStr (u @ ''::'' @ show_nat (uidEvent w)), w\<lparr>uidEvent := uidEvent w + 1\<rparr>)
      | None \<Rightarrow>
          (case truthy_uid (the_element w el) of
             Some n \<Rightarrow> (UidNum n, w)
           | None \<Rightarrow> (UidNum (uidEvent w), w\<lparr>uidEvent := uidEvent w + 1\<rparr>)))"

text \<open>
  \<^verbatim>\<open>getElementEvents\<close>: gives the element its uid and the registry an entry for it, and
  returns the uid with the entry.
\<close>

definition getElementEvents :: "nat \<Rightarrow> world \<Rightarrow> nat \<times> events \<times> world" where
  "getElementEvents el w =
     (let (u, w1) = makeEventUid el None w;
          uid = (case u of UidNum n \<Rightarrow> n | UidStr s \<Rightarrow> 0);
          w2 = w1\<lparr>elements := (elements w1)(el \<mapsto> (the_element w1 el)\<lparr>el_uidEvent := Some uid\<rparr>)\<rparr>;
          evs = (case eventRegistry w2 uid of Some e \<Rightarrow> e | None \<Rightarrow> [])
      in (uid, evs, w2\<lparr>eventRegistry := (eventRegistry w2)(uid \<mapsto> evs)\<rparr>))"

definition selectorKey :: "string option \<Rightarrow> string" where
  "selectorKey selector = (case selector of Some s \<Rightarrow> (if s = [] then ''base'' else s) | None \<Rightarrow> ''base'')"

definition lookup_list :: "(string \<times> 'a list) list \<Rightarrow> string \<Rightarrow> 'a list" where
  "lookup_list obj key = (case map_of obj key of Some xs \<Rightarrow> xs | None \<Rightarrow> [])"

text \<open>
  \<^verbatim>\<open>on(element, event, selector, handler, oneOff)\<close>, after its first lines have sorted out
  whether the third argument is the handler: \<open>selector\<close> is \<open>None\<close> without delegation.
  It returns early for an empty event or a missing handler.
\<close>

definition on :: "nat \<Rightarrow> string \<Rightarrow> string option \<Rightarrow> fnref option \<Rightarrow> bool \<Rightarrow> world \<Rightarrow> world" where
  "on el event selector handler oneOff w =
     (case handler of
        None \<Rightarrow> w
      | Some fn \<Rightarrow>
          if event = [] then w
          else
            (let (originalTypeEvent, namespaceEvent) = normalizeEventType event;
                 sel = (case selector of Some s \<Rightarrow> (if s = [] then None else Some s) | None \<Rightarrow> None);
                 w1 = w\<lparr>allocated := allocated w + 1\<rparr>;
                 (u, w2) = makeEventUid el (Some originalTypeEvent) w1;
                 delegationHandler = \<lparr>w_ref = allocated w, w_fn = fn, w_selector = sel,
                                       w_oneOff = oneOff, w_uidEvent = u\<rparr>;
                 (uid, evs, w3) = getElementEvents el w2;
                 eventKey = originalTypeEvent @ namespaceEvent;
                 eventData = lookup_list evs eventKey;
                 handlers = lookup_list eventData (selectorKey sel);
                 evs' = AList.update eventKey
                          (AList.update (selectorKey sel) (handlers @ [delegationHandler]) eventData) evs;
                 e = the_element w3 el
             in w3\<lparr>eventRegistry := (eventRegistry w3)(uid \<mapsto> evs'),
                   elements := (elements w3)(el \<mapsto> e\<lparr>el_listeners :=
                                  el_listeners e @ [(originalTypeEvent, delegationHandler)]\<rparr>)\<rparr>))"

text \<open>\<^verbatim>\<open>element.removeEventListener(type, listener, false)\<close>.\<close>

definition removeEventListener :: "string \<Rightarrow> wrapper \<Rightarrow> element \<Rightarrow> element" where
  "removeEventListener t dh e =
     e\<lparr>el_listeners := filter (\<lambda>(t', l). \<not> (t' = t \<and> w_ref l = w_ref dh)) (el_listeners e)\<rparr>"

text \<open>
  The body of the \<^verbatim>\<open>eventKeys.forEach\<close> of \<^verbatim>\<open>off\<close> for one key: it works on the
  element's entry \<open>evs\<close> and on the element.
\<close>

definition off_key :: "string \<Rightarrow> string option \<Rightarrow> fnref option \<Rightarrow> string \<Rightarrow> events \<times> element \<Rightarrow> events \<times> element" where
  "off_key originalTypeEvent selector handler eventKey st =
     (let (evs, e) = st
      in case map_of evs eventKey of
           None \<Rightarrow> (evs, e)
         | Some eventData \<Rightarrow>
             (let handlers = lookup_list eventData (selectorKey selector);
                  removed = filter (\<lambda>dh. handler = None \<or> handler = Some (WrapperFn (w_ref dh))) handlers;
                  e' = foldl (\<lambda>x dh. removeEventListener originalTypeEvent dh x) e removed;
                  kept = filter (\<lambda>h. handler \<noteq> Some (WrapperFn (w_ref h))) handlers;
                  eventData' = (if handler = None \<or> kept = []
                                then AList.delete (selectorKey selector) eventData
                                else AList.update (selectorKey selector) kept eventData)
              in (if eventData' = [] then AList.delete eventKey evs
                  else AList.update eventKey eventData' evs, e')))"

text \<open>
  A call either returns or throws; either way the state it has reached remains. An
  \<open>outcome\<close> is the exception, if one was thrown, and that state.
\<close>

type_synonym outcome = "js_error option \<times> world"

text \<open>
  \<^verbatim>\<open>off(element, event, selector, handler)\<close> for a non-empty event: the source from
  \<^verbatim>\<open>getElementEvents\<close> to the final clean-up of the element's entry.
\<close>

definition off_event :: "nat \<Rightarrow> string \<Rightarrow> string option \<Rightarrow> fnref option \<Rightarrow> world \<Rightarrow> world" where
  "off_event el event selector handler w =
     (let (uid, evs, w1) = getElementEvents el w;
          isNamespaceEvent = (CHR ''.'' \<in> set event);
          originalTypeEvent = fst (normalizeEventType event)
      in if evs = [] then w1
         else
           (let eventKeys = (if isNamespaceEvent
                             then filter (\<lambda>key. str_includes key (drop 1 event)) (map fst evs)
                             else [originalTypeEvent]);
                (evs', e') = foldl (\<lambda>st k. off_key originalTypeEvent selector handler k st)
                               (evs, the_element w1 el) eventKeys;
                w2 = w1\<lparr>elements := (elements w1)(el \<mapsto> e')\<rparr>
            in if evs' = [] then w2\<lparr>eventRegistry := (eventRegistry w2)(uid := None)\<rparr>
               else w2\<lparr>eventRegistry := (eventRegistry w2)(uid \<mapsto> evs')\<rparr>))"

text \<open>
  \<^verbatim>\<open>off\<close> itself; \<open>event = None\<close> is a call without the argument, which throws at
  \<^verbatim>\<open>event.includes('.')\<close>, after \<^verbatim>\<open>getElementEvents\<close>. With the empty event the source
  calls itself for every key of the entry; at a key that is itself empty that recursion
  has no end, which is a \<^verbatim>\<open>RangeError\<close>.
\<close>

definition off :: "nat \<Rightarrow> string option \<Rightarrow> string option \<Rightarrow> fnref option \<Rightarrow> world \<Rightarrow> outcome" where
  "off el event selector handler w =
     (case event of
        None \<Rightarrow> (Some (TypeError ''event is undefined''), snd (snd (getElementEvents el w)))
      | Some ev \<Rightarrow>
          if ev \<noteq> [] then (None, off_event el ev selector handler w)
          else
            (let (uid, evs, w1) = getElementEvents el w;
                 keys = map fst evs;
                 w2 = foldl (\<lambda>x eventType. off_event el eventType None None x) w1
                        (takeWhile (\<lambda>k. k \<noteq> []) keys)
             in (if [] \<in> set keys then Some (RangeError ''Maximum call stack size exceeded'') else None,
                 w2)))"

text \<open>\<^verbatim>\<open>cleanupElement(element)\<close>; \<open>None\<close> is a \<^verbatim>\<open>null\<close> element.\<close>

definition cleanupElement :: "nat option \<Rightarrow> world \<Rightarrow> outcome" where
  "cleanupElement element w =
     (case element of
        None \<Rightarrow> (None, w)
      | Some el \<Rightarrow>
          (case truthy_uid (the_element w el) of
             None \<Rightarrow> (None, w)
           | Some uid \<Rightarrow>
               (case off el None None None w of
                  (Some err, w1) \<Rightarrow> (Some err, w1)
                | (None, w1) \<Rightarrow>
                    (None, w1\<lparr>eventRegistry := (eventRegistry w1)(uid := None),
                              elements := (elements w1)(el \<mapsto> (the_element w1 el)\<lparr>el_uidEvent := None\<rparr>)\<rparr>))))"

text \<open>
  Dispatching an event of type \<open>t\<close> at the element: its listeners for \<open>t\<close> run in order.
  A wrapper that is \<^verbatim>\<open>oneOff\<close> first calls \<^verbatim>\<open>off\<close> with the wrapped function; then the
  wrapper calls the wrapped function. An exception inside a listener ends that listener
  only. Wrappers with a selector look at the document, which is not modelled: \<open>hit\<close> says
  whether the selector is met on the way up from the target. The result lists the
  functions called.
\<close>

definition run_wrapper :: "(string \<Rightarrow> bool) \<Rightarrow> nat \<Rightarrow> string \<Rightarrow> wrapper \<Rightarrow> fnref list \<times> world \<Rightarrow> fnref list \<times> world" where
  "run_wrapper hit el t dh st =
     (let (called, w) = st
      in if (case w_selector dh of None \<Rightarrow> True | Some s \<Rightarrow> hit s) then
           (if w_oneOff dh then
              (case off el (Some t) (w_selector dh) (Some (w_fn dh)) w of
                 (Some err, w1) \<Rightarrow> (called, w1)
               | (None, w1) \<Rightarrow> (called @ [w_fn dh], w1))
            else (called @ [w_fn dh], w))
         else (called, w))"

definition still_attached :: "nat \<Rightarrow> string \<Rightarrow> wrapper \<Rightarrow> world \<Rightarrow> bool" where
  "still_attached el t dh w =
     list_ex (\<lambda>(t', l). t' = t \<and> w_ref l = w_ref dh) (el_listeners (the_element w el))"

text \<open>The listeners are those present when the dispatch starts; one removed meanwhile is skipped.\<close>

definition dispatchEvent :: "(string \<Rightarrow> bool) \<Rightarrow> nat \<Rightarrow> string \<Rightarrow> world \<Rightarrow> fnref list \<times> world" where
  "dispatchEvent hit el t w =
     foldl (\<lambda>st dh. if still_attached el t dh (snd st) then run_wrapper hit el t dh st else st) ([], w)
       (map snd (filter (\<lambda>(t', l). t' = t) (el_listeners (the_element w el))))"

text \<open>
  The handlers that the registry holds for an element under an event key and a selector
  key, and the wrapper that \<^verbatim>\<open>on\<close> makes for a handler without selector.
\<close>

definition handlers_of :: "world \<Rightarrow> nat \<Rightarrow> string \<Rightarrow> string \<Rightarrow> wrapper list" where
  "handlers_of w el eventKey selKey =
     (case truthy_uid (the_element w el) of
        None \<Rightarrow> []
      | Some uid \<Rightarrow>
          lookup_list (lookup_list (case eventRegistry w uid of Some e \<Rightarrow> e | None \<Rightarrow> []) eventKey) selKey)"

definition new_wrapper :: "nat \<Rightarrow> string \<Rightarrow> fnref \<Rightarrow> bool \<Rightarrow> world \<Rightarrow> wrapper" where
  "new_wrapper el event fn oneOff w =
     \<lparr>w_ref = allocated w, w_fn = fn, w_selector = None, w_oneOff = oneOff,
      w_uidEvent = fst (makeEventUid el (Some (fst (normalizeEventType event)))
                          (w\<lparr>allocated := allocated w + 1\<rparr>))\<rparr>"


section \<open>Properties of the event registry\<close>

lemma lookup_list_delete:
  "lookup_list (AList.delete k obj) k' = (if k' = k then [] else lookup_list obj k')"
  by (simp add: lookup_list_def delete_conv')

lemma lookup_list_update:
  "lookup_list (AList.update k v obj) k' = (if k' = k then v else lookup_list obj k')"
  by (simp add: lookup_list_def update_conv')

lemma lookup_list_Nil [simp]: "lookup_list [] k = []"
  by (simp add: lookup_list_def)

text \<open>
  With a handler that is a function of the application, one round of \<^verbatim>\<open>off\<close> for a key
  leaves the element alone and every handler list as it is.
\<close>

lemma off_key_user_handler:
  assumes "off_key ot selector (Some (UserFn h)) k (evs, e) = (evs', e')"
  shows "e' = e \<and> (\<forall>k' s. lookup_list (lookup_list evs' k') s = lookup_list (lookup_list evs k') s)"
proof (cases "map_of evs k")
  case None
  with assms show ?thesis by (simp add: off_key_def)
next
  case (Some eventData)
  define handlers where "handlers = lookup_list eventData (selectorKey selector)"
  define eventData' where "eventData' =
     (if handlers = [] then AList.delete (selectorKey selector) eventData
      else AList.update (selectorKey selector) handlers eventData)"
  have same: "\<And>s. lookup_list eventData' s = lookup_list eventData s"
    by (simp add: eventData'_def lookup_list_delete lookup_list_update handlers_def)
  have ed: "lookup_list evs k = eventData"
    using Some by (simp add: lookup_list_def)
  have res: "evs' = (if eventData' = [] then AList.delete k evs else AList.update k eventData' evs)"
            "e' = e"
    using assms Some by (auto simp: off_key_def Let_def handlers_def eventData'_def split: if_splits)
  have "lookup_list (lookup_list evs' k') s = lookup_list (lookup_list evs k') s" for k' s
  proof (cases "eventData' = []")
    case True
    then have "lookup_list eventData s = []"
      using same [of s] by simp
    then show ?thesis
      using True res(1) ed by (simp add: lookup_list_delete)
  next
    case False
    then show ?thesis
      using res(1) ed same by (simp add: lookup_list_update)
  qed
  then show ?thesis using res(2) by simp
qed

lemma off_keys_user_handler:
  assumes "foldl (\<lambda>st k. off_key ot selector (Some (UserFn h)) k st) (evs, e) ks = (evs', e')"
  shows "e' = e \<and> (\<forall>k' s. lookup_list (lookup_list evs' k') s = lookup_list (lookup_list evs k') s)"
  using assms
proof (induction ks arbitrary: evs e)
  case Nil
  then show ?case by simp
next
  case (Cons k ks)
  obtain evs1 e1 where step: "off_key ot selector (Some (UserFn h)) k (evs, e) = (evs1, e1)"
    by (cases "off_key ot selector (Some (UserFn h)) k (evs, e)")
  from off_key_user_handler [OF step] Cons.IH [of evs1 e1] Cons.prems step
  show ?case by simp
qed

lemma getElementEvents_truthy:
  assumes "truthy_uid (the_element w el) = Some uid"
  shows "getElementEvents el w =
           (uid, (case eventRegistry w uid of Some e \<Rightarrow> e | None \<Rightarrow> []),
            w\<lparr>elements := (elements w)(el \<mapsto> (the_element w el)\<lparr>el_uidEvent := Some uid\<rparr>),
              eventRegistry := (eventRegistry w)(uid \<mapsto> (case eventRegistry w uid of Some e \<Rightarrow> e | None \<Rightarrow> []))\<rparr>)"
  using assms by (simp add: getElementEvents_def makeEventUid_def Let_def)

lemma the_element_update [simp]:
  "the_element (w\<lparr>elements := (elements w)(el \<mapsto> e)\<rparr>) el = e"
  by (simp add: the_element_def)

lemma truthy_uid_set:
  "uid \<noteq> 0 \<Longrightarrow> truthy_uid (e\<lparr>el_uidEvent := Some uid\<rparr>) = Some uid"
  by (simp add: truthy_uid_def)

lemma truthy_uid_nonzero: "truthy_uid e = Some uid \<Longrightarrow> uid \<noteq> 0"
  by (auto simp: truthy_uid_def split: option.splits if_splits)

text \<open>
  \<^verbatim>\<open>off\<close> with an event and a handler that is a function of the application removes
  nothing: the element keeps its uid and its listeners, the registry its handler lists.
\<close>

lemma off_event_user_handler:
  assumes "truthy_uid (the_element w el) = Some uid"
  shows "truthy_uid (the_element (off_event el event selector (Some (UserFn h)) w) el) = Some uid
       \<and> el_listeners (the_element (off_event el event selector (Some (UserFn h)) w) el)
           = el_listeners (the_element w el)
       \<and> handlers_of (off_event el event selector (Some (UserFn h)) w) el k s = handlers_of w el k s"
proof -
  define evs where "evs = (case eventRegistry w uid of Some e \<Rightarrow> e | None \<Rightarrow> [])"
  define e1 where "e1 = (the_element w el)\<lparr>el_uidEvent := Some uid\<rparr>"
  define w1 where "w1 = w\<lparr>elements := (elements w)(el \<mapsto> e1), eventRegistry := (eventRegistry w)(uid \<mapsto> evs)\<rparr>"
  have g: "getElementEvents el w = (uid, evs, w1)"
    using getElementEvents_truthy [OF assms] by (simp add: evs_def e1_def w1_def)
  have nz: "uid \<noteq> 0" using assms by (rule truthy_uid_nonzero)
  have e1: "truthy_uid e1 = Some uid" "el_listeners e1 = el_listeners (the_element w el)"
    using nz by (simp_all add: e1_def truthy_uid_def)
  have el1: "the_element w1 el = e1"
    by (simp add: w1_def the_element_def)
  have h0: "handlers_of w el k s = lookup_list (lookup_list evs k) s"
    using assms by (simp add: handlers_of_def evs_def)
  show ?thesis
  proof (cases "evs = []")
    case True
    then have "off_event el event selector (Some (UserFn h)) w = w1"
      by (simp add: off_event_def g)
    moreover have "handlers_of w1 el k s = lookup_list (lookup_list evs k) s"
      using e1 el1 by (simp add: handlers_of_def) (simp add: w1_def)
    ultimately show ?thesis
      using e1 el1 h0 by simp
  next
    case False
    define eventKeys where "eventKeys =
       (if CHR ''.'' \<in> set event then filter (\<lambda>key. str_includes key (drop 1 event)) (map fst evs)
        else [fst (normalizeEventType event)])"
    obtain evs' e' where f: "foldl (\<lambda>st k. off_key (fst (normalizeEventType event)) selector (Some (UserFn h)) k st)
                               (evs, e1) eventKeys = (evs', e')"
      by (cases "foldl (\<lambda>st k. off_key (fst (normalizeEventType event)) selector (Some (UserFn h)) k st)
                               (evs, e1) eventKeys")
    from off_keys_user_handler [OF f]
    have e': "e' = e1" and same: "\<And>k' s. lookup_list (lookup_list evs' k') s = lookup_list (lookup_list evs k') s"
      by simp_all
    define w2 where "w2 = w1\<lparr>elements := (elements w1)(el \<mapsto> e1)\<rparr>"
    have res: "off_event el event selector (Some (UserFn h)) w =
                 (if evs' = [] then w2\<lparr>eventRegistry := (eventRegistry w2)(uid := None)\<rparr>
                  else w2\<lparr>eventRegistry := (eventRegistry w2)(uid \<mapsto> evs')\<rparr>)"
      using False f e' by (simp add: off_event_def g Let_def el1 eventKeys_def w2_def)
    have elr: "the_element (off_event el event selector (Some (UserFn h)) w) el = e1"
      unfolding res by (simp add: w2_def the_element_def)
    have "handlers_of (off_event el event selector (Some (UserFn h)) w) el k s
            = lookup_list (lookup_list evs' k) s"
      unfolding handlers_of_def elr e1(1) unfolding res
      by (simp add: w2_def)
    then show ?thesis
      using elr e1 same h0 by simp
  qed
qed

lemma makeEventUid_fields:
  assumes "makeEventUid el uid w = (u, w')"
  shows "elements w' = elements w" "eventRegistry w' = eventRegistry w" "uidEvent w \<le> uidEvent w'"
    "the_element w' el' = the_element w el'"
proof -
  have "w' = w \<or> w' = w\<lparr>uidEvent := uidEvent w + 1\<rparr>"
    using assms by (auto simp: makeEventUid_def split: option.splits)
  then show "elements w' = elements w" "eventRegistry w' = eventRegistry w"
    "uidEvent w \<le> uidEvent w'" "the_element w' el' = the_element w el'"
    by (auto simp: the_element_def)
qed

lemma getElementEvents_result:
  assumes "getElementEvents el w = (uid, evs, w')" and "0 < uidEvent w"
  shows "uid \<noteq> 0" "the_element w' el = (the_element w el)\<lparr>el_uidEvent := Some uid\<rparr>"
    "eventRegistry w' uid = Some evs"
proof -
  obtain u w1 where mk: "makeEventUid el None w = (u, w1)"
    by (cases "makeEventUid el None w")
  have u: "u = UidNum uid" "uid \<noteq> 0"
    using assms mk
    by (auto simp: getElementEvents_def makeEventUid_def Let_def
        split: option.splits euid.splits dest: truthy_uid_nonzero)
  show "uid \<noteq> 0" by fact
  have w': "w' = w1\<lparr>elements := (elements w1)(el \<mapsto> (the_element w1 el)\<lparr>el_uidEvent := Some uid\<rparr>),
                    eventRegistry := (eventRegistry w1)(uid \<mapsto> evs)\<rparr>"
    using assms(1) mk u by (auto simp: getElementEvents_def Let_def)
  show "the_element w' el = (the_element w el)\<lparr>el_uidEvent := Some uid\<rparr>"
    unfolding w' using makeEventUid_fields(4) [OF mk] by (simp add: the_element_def)
  show "eventRegistry w' uid = Some evs"
    unfolding w' by simp
qed

text \<open>
  What \<^verbatim>\<open>on\<close> does for a handler without selector: the new wrapper is the last entry of
  the element's list under the event key and \<^verbatim>\<open>base\<close>, and the last listener of the
  element.
\<close>

lemma on_registers:
  assumes "event \<noteq> []" and "0 < uidEvent w"
  shows "\<exists>uid pre. truthy_uid (the_element (on el event None (Some fn) oneOff w) el) = Some uid
           \<and> handlers_of (on el event None (Some fn) oneOff w) el
                (fst (normalizeEventType event) @ snd (normalizeEventType event)) ''base''
               = pre @ [new_wrapper el event fn oneOff w]
           \<and> el_listeners (the_element (on el event None (Some fn) oneOff w) el)
               = el_listeners (the_element w el)
                   @ [(fst (normalizeEventType event), new_wrapper el event fn oneOff w)]"
proof -
  define orig where "orig = fst (normalizeEventType event)"
  define ns where "ns = snd (normalizeEventType event)"
  define wa where "wa = w\<lparr>allocated := allocated w + 1\<rparr>"
  obtain u w2 where mk: "makeEventUid el (Some orig) wa = (u, w2)"
    by (cases "makeEventUid el (Some orig) wa")
  obtain uid evs w3 where g: "getElementEvents el w2 = (uid, evs, w3)"
    by (cases "getElementEvents el w2") auto
  define dh where "dh = new_wrapper el event fn oneOff w"
  have dh: "dh = \<lparr>w_ref = allocated w, w_fn = fn, w_selector = None, w_oneOff = oneOff, w_uidEvent = u\<rparr>"
    using mk by (simp add: dh_def new_wrapper_def orig_def wa_def)
  have pos: "0 < uidEvent w2"
    using makeEventUid_fields(3) [OF mk] assms(2) by (simp add: wa_def)
  have el2: "the_element w2 el = the_element w el"
    using makeEventUid_fields(4) [OF mk] by (simp add: wa_def the_element_def)
  note r = getElementEvents_result [OF g pos]
  define handlers where "handlers = lookup_list (lookup_list evs (orig @ ns)) ''base''"
  define evs' where "evs' = AList.update (orig @ ns)
                     (AList.update ''base'' (handlers @ [dh]) (lookup_list evs (orig @ ns))) evs"
  define e where "e = the_element w3 el"
  have res: "on el event None (Some fn) oneOff w =
               w3\<lparr>eventRegistry := (eventRegistry w3)(uid \<mapsto> evs'),
                  elements := (elements w3)(el \<mapsto> e\<lparr>el_listeners := el_listeners e @ [(orig, dh)]\<rparr>)\<rparr>"
  proof -
    have mk': "makeEventUid el (Some orig) (w\<lparr>allocated := Suc (allocated w)\<rparr>) = (u, w2)"
      using mk by (simp add: wa_def)
    show ?thesis
      using assms(1)
      by (simp add: on_def Let_def orig_def [symmetric] ns_def [symmetric] split_beta mk' g
          selectorKey_def dh handlers_def evs'_def e_def)
  qed
  have el: "the_element (on el event None (Some fn) oneOff w) el
              = e\<lparr>el_listeners := el_listeners e @ [(orig, dh)]\<rparr>"
    unfolding res by (simp add: the_element_def)
  have e: "e = (the_element w el)\<lparr>el_uidEvent := Some uid\<rparr>"
    using r(2) el2 by (simp add: e_def)
  have t: "truthy_uid (the_element (on el event None (Some fn) oneOff w) el) = Some uid"
    unfolding el using r(1) by (simp add: e truthy_uid_def)
  have "handlers_of (on el event None (Some fn) oneOff w) el (orig @ ns) ''base'' = handlers @ [dh]"
    unfolding handlers_of_def t unfolding res
    by (simp add: evs'_def lookup_list_update)
  moreover have "el_listeners (the_element (on el event None (Some fn) oneOff w) el)
                   = el_listeners (the_element w el) @ [(orig, dh)]"
    unfolding el by (simp add: e)
  ultimately show ?thesis
    using t unfolding orig_def ns_def dh_def by blast
qed

lemma removeEventListener_detaches:
  "\<not> list_ex (\<lambda>(t', l). t' = t \<and> w_ref l = w_ref dh)
       (el_listeners (foldl (\<lambda>x d. removeEventListener t d x) e ds))"
  if "dh \<in> set ds \<or> \<not> list_ex (\<lambda>(t', l). t' = t \<and> w_ref l = w_ref dh) (el_listeners e)"
  using that
proof (induction ds arbitrary: e)
  case Nil
  then show ?case by simp
next
  case (Cons d ds)
  show ?case
  proof (cases "dh \<in> set ds")
    case True
    then show ?thesis using Cons.IH [of "removeEventListener t d e"] by simp
  next
    case False
    have "\<not> list_ex (\<lambda>(t', l). t' = t \<and> w_ref l = w_ref dh) (el_listeners (removeEventListener t d e))"
      using Cons.prems False
      by (auto simp: removeEventListener_def list_ex_iff)
    then show ?thesis using Cons.IH [of "removeEventListener t d e"] by simp
  qed
qed

lemma removeEventListener_fields:
  "el_uidEvent (foldl (\<lambda>x d. removeEventListener t d x) e ds) = el_uidEvent e"
  by (induction ds arbitrary: e) (simp_all add: removeEventListener_def)

text \<open>
  \<^verbatim>\<open>off(element, event)\<close> without handler, for an event without namespace and a list of
  handlers registered under it: every handler of the list is taken off the element, and
  the registry has none left under the event.
\<close>

lemma off_event_without_handler:
  assumes uid: "truthy_uid (the_element w el) = Some uid"
      and ev: "CHR ''.'' \<notin> set event"
      and reg: "dh \<in> set (handlers_of w el (fst (normalizeEventType event)) ''base'')"
  shows "handlers_of (off_event el event None None w) el (fst (normalizeEventType event)) ''base'' = []
       \<and> \<not> still_attached el (fst (normalizeEventType event)) dh (off_event el event None None w)"
proof -
  define orig where "orig = fst (normalizeEventType event)"
  define evs where "evs = (case eventRegistry w uid of Some e \<Rightarrow> e | None \<Rightarrow> [])"
  define e1 where "e1 = (the_element w el)\<lparr>el_uidEvent := Some uid\<rparr>"
  define w1 where "w1 = w\<lparr>elements := (elements w)(el \<mapsto> e1), eventRegistry := (eventRegistry w)(uid \<mapsto> evs)\<rparr>"
  have g: "getElementEvents el w = (uid, evs, w1)"
    using getElementEvents_truthy [OF uid] by (simp add: evs_def e1_def w1_def)
  have nz: "uid \<noteq> 0" using uid by (rule truthy_uid_nonzero)
  have el1: "the_element w1 el = e1"
    by (simp add: w1_def the_element_def)
  have hs: "dh \<in> set (lookup_list (lookup_list evs orig) ''base'')"
    using reg uid by (simp add: handlers_of_def evs_def orig_def)
  then obtain eventData where ed: "map_of evs orig = Some eventData"
    by (cases "map_of evs orig") (auto simp: lookup_list_def)
  then have ne: "evs \<noteq> []" by auto
  define handlers where "handlers = lookup_list eventData ''base''"
  have dh: "dh \<in> set handlers"
    using hs ed by (simp add: handlers_def lookup_list_def)
  define e' where "e' = foldl (\<lambda>x d. removeEventListener orig d x) e1 handlers"
  define eventData' where "eventData' = AList.delete ''base'' eventData"
  define evs' where "evs' = (if eventData' = [] then AList.delete orig evs else AList.update orig eventData' evs)"
  have key: "off_key orig None None orig (evs, e1) = (evs', e')"
    using ed by (simp add: off_key_def Let_def selectorKey_def handlers_def e'_def eventData'_def evs'_def)
  define w2 where "w2 = w1\<lparr>elements := (elements w1)(el \<mapsto> e')\<rparr>"
  have res: "off_event el event None None w =
               (if evs' = [] then w2\<lparr>eventRegistry := (eventRegistry w2)(uid := None)\<rparr>
                else w2\<lparr>eventRegistry := (eventRegistry w2)(uid \<mapsto> evs')\<rparr>)"
    using ne ev key by (simp add: off_event_def g Let_def el1 orig_def [symmetric] w2_def)
  have elr: "the_element (off_event el event None None w) el = e'"
    unfolding res by (simp add: w2_def the_element_def)
  have tu: "truthy_uid e' = Some uid"
    using nz by (simp add: e'_def truthy_uid_def removeEventListener_fields e1_def)
  have none: "lookup_list (lookup_list evs' orig) ''base'' = []"
    by (simp add: evs'_def eventData'_def lookup_list_delete lookup_list_update)
  have "handlers_of (off_event el event None None w) el orig ''base''
          = lookup_list (lookup_list evs' orig) ''base''"
    unfolding handlers_of_def elr tu unfolding res
    by (simp add: w2_def)
  moreover have "\<not> still_attached el orig dh (off_event el event None None w)"
    unfolding still_attached_def elr e'_def
    using dh by (intro removeEventListener_detaches) simp
  ultimately show ?thesis
    using none by (simp add: orig_def)
qed

definition world0 :: world where
  "world0 = \<lparr>elements = [0 \<mapsto> \<lparr>el_uidEvent = None, el_listeners = [], parentNode = None, childNodes = []\<rparr>],
             created = 1, eventRegistry = Map.empty, uidEvent = 1, allocated = 0, elementMap = Map.empty,
             has_EventHandler = True, has_DataManager = True\<rparr>"

text \<open>
  What the tenth claim says of removal with a handler reference holds in general.
  Registering \<open>handler\<close>, a function of the application, with
  \<^verbatim>\<open>on(element, event, handler)\<close> puts a wrapper into the registry and onto the element.
  \<^verbatim>\<open>off(element, event, handler)\<close> with the same handler then returns without removing
  anything: the handler list of the registry and the listeners of the element are as
  before, the wrapper among them; and when a dispatch of the event type runs that
  listener, \<open>handler\<close> is called. Removal without a handler reference does detach: for an
  event without namespace, \<^verbatim>\<open>off(element, event)\<close> leaves no handler in the registry under
  the event and takes the wrapper off the element.
\<close>

theorem off_with_handler_removes_nothing:
  assumes "event \<noteq> []" and "0 < uidEvent w"
  shows "let w1 = on el event None (Some (UserFn h)) oneOff w;
             dh = new_wrapper el event (UserFn h) oneOff w;
             orig = fst (normalizeEventType event);
             eventKey = orig @ snd (normalizeEventType event);
             r = off el (Some event) None (Some (UserFn h)) w1;
             r' = off el (Some event) None None w1
         in (\<exists>pre. handlers_of w1 el eventKey ''base'' = pre @ [dh])
            \<and> el_listeners (the_element w1 el) = el_listeners (the_element w el) @ [(orig, dh)]
            \<and> fst r = None
            \<and> handlers_of (snd r) el eventKey ''base'' = handlers_of w1 el eventKey ''base''
            \<and> el_listeners (the_element (snd r) el) = el_listeners (the_element w1 el)
            \<and> (orig \<noteq> [] \<longrightarrow> fst (run_wrapper hit el orig dh (called, snd r)) = called @ [UserFn h])
            \<and> (CHR ''.'' \<notin> set event \<longrightarrow>
                  fst r' = None \<and> handlers_of (snd r') el eventKey ''base'' = []
                  \<and> \<not> still_attached el orig dh (snd r'))"
proof -
  define w1 where "w1 = on el event None (Some (UserFn h)) oneOff w"
  define dh where "dh = new_wrapper el event (UserFn h) oneOff w"
  define orig where "orig = fst (normalizeEventType event)"
  define eventKey where "eventKey = orig @ snd (normalizeEventType event)"
  define r where "r = off el (Some event) None (Some (UserFn h)) w1"
  define r' where "r' = off el (Some event) None None w1"
  from on_registers [OF assms, of el "UserFn h" oneOff]
  obtain uid pre where uid: "truthy_uid (the_element w1 el) = Some uid"
    and reg: "handlers_of w1 el eventKey ''base'' = pre @ [dh]"
    and lis: "el_listeners (the_element w1 el) = el_listeners (the_element w el) @ [(orig, dh)]"
    unfolding w1_def dh_def orig_def eventKey_def by blast
  have r: "r = (None, off_event el event None (Some (UserFn h)) w1)"
    using assms(1) by (simp add: r_def off_def)
  note keep = off_event_user_handler [OF uid, of event None h]
  have run: "fst (run_wrapper hit el orig dh (called, snd r)) = called @ [UserFn h]" if "orig \<noteq> []"
    using that by (simp add: run_wrapper_def dh_def new_wrapper_def off_def)
  have detach: "fst r' = None \<and> handlers_of (snd r') el eventKey ''base'' = []
                  \<and> \<not> still_attached el orig dh (snd r')" if nodot: "CHR ''.'' \<notin> set event"
  proof -
    have "dropWhile (\<lambda>c. c \<noteq> CHR ''.'') event = []"
      using nodot by (simp add: dropWhile_eq_Nil_conv) metis
    then have k: "eventKey = orig"
      by (simp add: eventKey_def normalizeEventType_def)
    have "dh \<in> set (handlers_of w1 el (fst (normalizeEventType event)) ''base'')"
      using reg k by (simp add: orig_def)
    from off_event_without_handler [OF uid nodot this]
    show ?thesis
      using assms(1) k by (simp add: r'_def off_def orig_def)
  qed
  show ?thesis
    unfolding Let_def w1_def [symmetric] dh_def [symmetric] orig_def [symmetric]
      eventKey_def [symmetric] r_def [symmetric] r'_def [symmetric]
    using reg lis keep run detach by (simp add: r)
qed

theorem off_with_handler_removes_nothing_witness:
  "''click'' \<noteq> [] \<and> 0 < uidEvent world0 \<and> CHR ''.'' \<notin> set ''click''
   \<and> fst (normalizeEventType ''click'') = ''click''
   \<and> el_listeners (the_element (on 0 ''click'' None (Some (UserFn 7)) False world0) 0)
       = [(''click'', new_wrapper 0 ''click'' (UserFn 7) False world0)]
   \<and> fst (off 0 (Some ''click'') None (Some (UserFn 7)) (on 0 ''click'' None (Some (UserFn 7)) False world0))
       = None
   \<and> el_listeners (the_element
        (snd (off 0 (Some ''click'') None (Some (UserFn 7)) (on 0 ''click'' None (Some (UserFn 7)) False world0))) 0)
       = [(''click'', new_wrapper 0 ''click'' (UserFn 7) False world0)]
   \<and> fst (run_wrapper (\<lambda>s. False) 0 ''click'' (new_wrapper 0 ''click'' (UserFn 7) False world0)
        ([], snd (off 0 (Some ''click'') None (Some (UserFn 7)) (on 0 ''click'' None (Some (UserFn 7)) False world0))))
       = [UserFn 7]
   \<and> handlers_of (snd (off 0 (Some ''click'') None None (on 0 ''click'' None (Some (UserFn 7)) False world0)))
        0 ''click'' ''base'' = []
   \<and> \<not> still_attached 0 ''click'' (new_wrapper 0 ''click'' (UserFn 7) False world0)
        (snd (off 0 (Some ''click'') None None (on 0 ''click'' None (Some (UserFn 7)) False world0)))"
proof -
  have ev: "''click'' \<noteq> []" by simp
  have pos: "0 < uidEvent world0" by (simp add: world0_def)
  have orig: "normalizeEventType ''click'' = (''click'', [])"
    by (simp add: normalizeEventType_def customEvents_def)
  have old: "el_listeners (the_element world0 0) = []"
    by (simp add: world0_def the_element_def)
  show ?thesis
    using off_with_handler_removes_nothing [OF ev pos, of 0 7 False "\<lambda>s. False" "[]"] pos
    by (simp add: Let_def orig old)
qed

lemma dispatch_after_off_calls_handler:
  "fst (dispatchEvent (\<lambda>s. False) 0 ''click''
         (snd (off 0 (Some ''click'') None (Some (UserFn 7))
                (on 0 ''click'' None (Some (UserFn 7)) False world0))))
     = [UserFn 7]"
  by code_simp


lemma getElementEvents_keeps_handlers:
  assumes "truthy_uid (the_element w el) = Some uid"
  shows "handlers_of (snd (snd (getElementEvents el w))) el k s = handlers_of w el k s"
  using assms truthy_uid_nonzero [OF assms]
  by (auto simp: getElementEvents_truthy handlers_of_def truthy_uid_def the_element_def
      split: option.splits)

definition worldClick :: world where
  "worldClick = on 0 ''click.cart'' None (Some (UserFn 7)) False world0"

lemma worldClick_registered:
  "el_listeners (the_element worldClick 0) = [(''click'', new_wrapper 0 ''click.cart'' (UserFn 7) False world0)]"
  "handlers_of worldClick 0 ''click.cart'' ''base'' = [new_wrapper 0 ''click.cart'' (UserFn 7) False world0]"
  "truthy_uid (the_element worldClick 0) = Some 2"
  by (simp_all add: worldClick_def on_def world0_def normalizeEventType_def customEvents_def
      makeEventUid_def getElementEvents_def the_element_def truthy_uid_def Let_def
      handlers_of_def lookup_list_def selectorKey_def new_wrapper_def)

lemma off_type_and_namespace_detaches:
  "el_listeners (the_element (snd (off 0 (Some ''click.cart'') None None worldClick)) 0) = []
   \<and> handlers_of (snd (off 0 (Some ''click.cart'') None None worldClick)) 0 ''click.cart'' ''base'' = []"
  by code_simp

lemma off_namespace_keeps_listener:
  "fst (off 0 (Some ''.cart'') None None worldClick) = None
   \<and> handlers_of (snd (off 0 (Some ''.cart'') None None worldClick)) 0 ''click.cart'' ''base'' = []
   \<and> el_listeners (the_element (snd (off 0 (Some ''.cart'') None None worldClick)) 0)
       = [(''click'', new_wrapper 0 ''click.cart'' (UserFn 7) False world0)]
   \<and> fst (dispatchEvent (\<lambda>s. False) 0 ''click'' (snd (off 0 (Some ''.cart'') None None worldClick)))
       = [UserFn 7]"
  by code_simp

text \<open>
  C10. The claim ends with the ways that do detach a handler: removal without a handler
  reference, by namespace, or through \<^verbatim>\<open>cleanupElement\<close>. The code has a branch for each and
  misses in two. After \<^verbatim>\<open>on(element, 'click.cart', handler)\<close>:
  \<^verbatim>\<open>cleanupElement(element)\<close> throws, because it calls \<^verbatim>\<open>off\<close> without event and \<^verbatim>\<open>off\<close>
  reads \<^verbatim>\<open>event.includes\<close> before it reaches its branch for a missing event, and the handler
  stays in the registry and on the element; \<^verbatim>\<open>off(element, '.cart')\<close> empties the registry
  but takes the listeners off for the empty event type, so the listener stays on the
  element and a \<^verbatim>\<open>click\<close> still calls the handler.
\<close>

theorem cleanup_and_namespace_removal_keep_listener:
  "fst (cleanupElement (Some 0) worldClick) = Some (TypeError ''event is undefined'')
   \<and> handlers_of (snd (cleanupElement (Some 0) worldClick)) 0 ''click.cart'' ''base''
       = [new_wrapper 0 ''click.cart'' (UserFn 7) False world0]
   \<and> el_listeners (the_element (snd (cleanupElement (Some 0) worldClick)) 0)
       = [(''click'', new_wrapper 0 ''click.cart'' (UserFn 7) False world0)]
   \<and> fst (off 0 (Some ''.cart'') None None worldClick) = None
   \<and> el_listeners (the_element (snd (off 0 (Some ''.cart'') None None worldClick)) 0)
       = [(''click'', new_wrapper 0 ''click.cart'' (UserFn 7) False world0)]
   \<and> fst (dispatchEvent (\<lambda>s. False) 0 ''click'' (snd (off 0 (Some ''.cart'') None None worldClick)))
       = [UserFn 7]"
proof -
  have c: "cleanupElement (Some 0) worldClick =
             (Some (TypeError ''event is undefined''), snd (snd (getElementEvents 0 worldClick)))"
    using worldClick_registered(3) by (simp add: cleanupElement_def off_def)
  have l: "el_listeners (the_element (snd (snd (getElementEvents 0 worldClick))) 0)
             = el_listeners (the_element worldClick 0)"
    using worldClick_registered(3) by (simp add: getElementEvents_truthy the_element_def)
  show ?thesis
    using off_namespace_keeps_listener worldClick_registered l
      getElementEvents_keeps_handlers [OF worldClick_registered(3)]
    by (simp add: c)
qed

section \<open>Control definitions and their validation (base-control.js, control-factory.js)\<close>

text \<open>
  A control definition as far as the factory and the base control look at it: its
  \<^verbatim>\<open>type\<close>, its \<^verbatim>\<open>UID\<close> and its \<^verbatim>\<open>children\<close>; \<open>DNull\<close> is \<^verbatim>\<open>null\<close>. A field that is
  absent is \<open>None\<close>; absent children and an empty array are both \<open>[]\<close>. Definitions with
  \<^verbatim>\<open>props\<close> or \<^verbatim>\<open>style\<close>, which the type-specific rules read, are outside this fragment.
\<close>

datatype jsdef = DNull | Def (d_type: "string option") (d_UID: "string option") (d_children: "jsdef list")
  where "d_type DNull = None" | "d_UID DNull = None" | "d_children DNull = []"

text \<open>A string property that is absent or empty is falsy.\<close>

definition truthy :: "string option \<Rightarrow> string option" where
  "truthy s = (case s of Some t \<Rightarrow> (if t = [] then None else Some t) | None \<Rightarrow> None)"

definition VALID_CONTROL_TYPES :: "string list" where
  "VALID_CONTROL_TYPES =
     [''panel'', ''tab-control'', ''grid-layout'', ''section'', ''splitter'', ''datagrid'',
      ''textbox'', ''numeric-input'', ''password'', ''barcode-input'', ''dropdown'', ''datepicker'',
      ''toggle'', ''search-bar'',
      ''button'', ''button-pad'', ''menu-button'', ''shortcut-keys'',
      ''label'', ''message-box'', ''status-bar'', ''notification-area'', ''image'',
      ''cart-grid'', ''totals-display'', ''payment-control'', ''change-due-display'',
      ''customer-info-panel'',
      ''price-checker'', ''signature-pad'', ''receipt-preview'', ''scale-input'', ''cash-drawer'',
      ''device-control'', ''context-menu'']"

fun join :: "string \<Rightarrow> string list \<Rightarrow> string" where
  "join sep [] = []"
| "join sep [x] = x"
| "join sep (x # y # ys) = x @ sep @ join sep (y # ys)"

text \<open>
  The class of a control: the base class \<^verbatim>\<open>Control\<close>, or a concrete class by the name of
  its global (\<^verbatim>\<open>window.PanelControl\<close>). A registry entry is a function without arguments;
  the model keeps what a call of it does: it returns a class, returns \<^verbatim>\<open>undefined\<close>, or
  throws.
\<close>

datatype cls = Base | Class string

datatype getter = Returns "cls option" | GetterThrows

text \<open>
  What the factory finds around it: whether \<^verbatim>\<open>window.Validation\<close> is installed, whether
  \<^verbatim>\<open>window.Control\<close> is the base class, the registry \<^verbatim>\<open>controlTypes\<close>, for which
  definitions the constructor of a concrete class throws, and the identifier that the
  random generators give out for a prefix.
\<close>

record env =
  has_Validation :: bool
  has_Control :: bool
  controlTypes :: "string \<rightharpoonup> getter"
  ctor_throws :: "string \<Rightarrow> jsdef \<Rightarrow> bool"
  genUID :: "string \<Rightarrow> string"

text \<open>The registry as \<^verbatim>\<open>control-factory.js\<close> sets it up; \<open>loaded\<close> says which globals are bound.\<close>

definition defaultControlTypes :: "(string \<Rightarrow> bool) \<Rightarrow> (string \<times> getter) list" where
  "defaultControlTypes loaded =
     map (\<lambda>(t, c). (t, Returns (if loaded c then Some (Class c) else None)))
       [(''panel'', ''PanelControl''), (''tab-control'', ''TabControl''),
        (''grid-layout'', ''GridLayoutControl''), (''section'', ''SectionControl''),
        (''splitter'', ''SplitterControl''), (''datagrid'', ''DataGridControl''),
        (''textbox'', ''TextBoxControl''), (''input'', ''TextBoxControl''),
        (''numeric-input'', ''NumericInputControl''), (''password'', ''PasswordControl''),
        (''barcode-input'', ''BarcodeInputControl''), (''dropdown'', ''DropdownControl''),
        (''datepicker'', ''DatePickerControl''), (''toggle'', ''ToggleControl''),
        (''button'', ''ButtonControl''), (''button-pad'', ''ButtonPadControl''),
        (''menu-button'', ''MenuButtonControl''), (''shortcut-keys'', ''ShortcutKeysControl''),
        (''label'', ''LabelControl''), (''message-box'', ''MessageBoxControl''),
        (''status-bar'', ''StatusBarControl''), (''notification-area'', ''NotificationAreaControl''),
        (''image'', ''ImageControl''),
        (''cart-grid'', ''CartGridControl''), (''totals-display'', ''TotalsDisplayControl''),
        (''payment-control'', ''PaymentControlControl''),
        (''change-due-display'', ''ChangeDueDisplayControl''),
        (''customer-info-panel'', ''CustomerInfoPanelControl''),
        (''price-checker'', ''PriceCheckerControl''), (''signature-pad'', ''SignaturePadControl''),
        (''receipt-preview'', ''ReceiptPreviewControl''), (''scale-input'', ''ScaleInputControl''),
        (''cash-drawer'', ''CashDrawerControl''), (''device-control'', ''DeviceControlControl''),
        (''context-menu'', ''ContextMenuControl''), (''search-bar'', ''SearchBarControl'')]"

record validation =
  isValid :: bool
  errors :: "string list"
  sanitizedDefinition :: "jsdef option"

text \<open>
  The errors that \<^verbatim>\<open>Validation.validateControlDefinition\<close> collects, in the order of its
  steps: basic structure, type-specific rules (for a definition without \<^verbatim>\<open>props\<close> only
  the dropdown and the data grid report an error), children (each child validated by
  itself, its errors prefixed with its index). For \<^verbatim>\<open>null\<close> the basic step reports and
  the type-specific step throws, which is caught and reported. Warnings never block a
  creation and are left out.
\<close>

fun validation_errors :: "jsdef \<Rightarrow> string list"
  and children_errors :: "nat \<Rightarrow> jsdef list \<Rightarrow> string list" where
  "validation_errors DNull =
     [''Control definition must be an object'',
      ''Validation failed: Cannot destructure property 'type' of 'definition' as it is null.'']"
| "validation_errors (Def t u cs) =
     (if t = None then [''Missing required property: type''] else [])
     @ (case truthy t of
          Some ty \<Rightarrow>
            (if ty \<notin> set VALID_CONTROL_TYPES
             then [''Invalid control type: '' @ ty @ ''. Valid types: '' @ join '', '' VALID_CONTROL_TYPES]
             else [])
        | None \<Rightarrow> [])
     @ (if t = Some ''dropdown'' then [''Dropdown must have options in props'']
        else if t = Some ''datagrid'' then [''DataGrid must have columns in props'']
        else [])
     @ children_errors 0 cs"
| "children_errors i [] = []"
| "children_errors i (c # cs) =
     map (\<lambda>e. ''Child at index '' @ show_nat i @ '': '' @ e) (validation_errors c)
     @ children_errors (Suc i) cs"

text \<open>
  \<^verbatim>\<open>applySanitization\<close> on the clone: a missing \<^verbatim>\<open>UID\<close> is generated from the type. When
  validation threw (the definition is \<^verbatim>\<open>null\<close>) there is no sanitized definition.
\<close>

definition validateControlDefinition :: "env \<Rightarrow> jsdef \<Rightarrow> validation" where
  "validateControlDefinition E d =
     \<lparr>isValid = (validation_errors d = []),
      errors = validation_errors d,
      sanitizedDefinition =
        (case d of
           DNull \<Rightarrow> None
         | Def t u cs \<Rightarrow>
             Some (Def t (Some (case truthy u of
                                  Some x \<Rightarrow> x
                                | None \<Rightarrow> genUID E (case t of Some ty \<Rightarrow> ty | None \<Rightarrow> ''control''))) cs))\<rparr>"

text \<open>\<^verbatim>\<open>ControlFactory.isValidType\<close> and the factory's own validation, used without \<^verbatim>\<open>window.Validation\<close>.\<close>

definition isValidType :: "env \<Rightarrow> string \<Rightarrow> bool" where
  "isValidType E t = (controlTypes E t \<noteq> None)"

definition basicValidation :: "env \<Rightarrow> jsdef \<Rightarrow> validation" where
  "basicValidation E d =
     (case d of
        DNull \<Rightarrow> \<lparr>isValid = False, errors = [''Definition is required''], sanitizedDefinition = None\<rparr>
      | Def t u cs \<Rightarrow>
          (let errs = (case truthy t of
                         None \<Rightarrow> [''Control type is required'']
                       | Some ty \<Rightarrow> (if \<not> isValidType E ty then [''Invalid control type: '' @ ty] else []))
           in \<lparr>isValid = (errs = []), errors = errs, sanitizedDefinition = Some d\<rparr>))"

definition validateDefinition :: "env \<Rightarrow> jsdef \<Rightarrow> validation" where
  "validateDefinition E d =
     (if has_Validation E then validateControlDefinition E d else basicValidation E d)"

definition critical :: "string \<Rightarrow> bool" where
  "critical error = (str_includes error ''type is required'' \<or> str_includes error ''Invalid control type'')"

section \<open>Controls and the factory\<close>

text \<open>
  A control instance: the fields the constructor copies from the definition, the
  element once rendered, and the listener table (event name to callbacks, in order of
  registration). Its child controls and its parent are kept by the structures below.
\<close>

record control =
  UID :: string
  ctype :: string
  cclass :: cls
  children :: "jsdef list"
  element :: "nat option"
  eventListeners :: "(string \<times> callback list) list"

text \<open>The constructor of the base class; \<open>k\<close> is the class whose instance is being built.\<close>

definition construct :: "env \<Rightarrow> cls \<Rightarrow> jsdef \<Rightarrow> control" where
  "construct E k d =
     \<lparr>UID = (case truthy (d_UID d) of Some u \<Rightarrow> u | None \<Rightarrow> genUID E ''control''),
      ctype = (case d_type d of Some t \<Rightarrow> t | None \<Rightarrow> []),
      cclass = k,
      children = d_children d,
      element = None,
      eventListeners = []\<rparr>"

text \<open>\<^verbatim>\<open>new window.Control(definition)\<close> and \<^verbatim>\<open>new ControlClass(definition)\<close>.\<close>

definition new_Control :: "env \<Rightarrow> jsdef \<Rightarrow> js_error + control" where
  "new_Control E d =
     (if has_Control E then Inr (construct E Base d)
      else Inl (TypeError ''window.Control is not a constructor''))"

definition new_Class :: "env \<Rightarrow> cls \<Rightarrow> jsdef \<Rightarrow> js_error + control" where
  "new_Class E k d =
     (case k of
        Base \<Rightarrow> new_Control E d
      | Class name \<Rightarrow>
          (if ctor_throws E name d then Inl (TypeError ''constructor threw'')
           else Inr (construct E k d)))"

text \<open>
  \<^verbatim>\<open>ControlFactory.create\<close>. The result is the exception that leaves the function, or what
  it returns: \<open>None\<close> is \<^verbatim>\<open>null\<close>.
\<close>

definition create :: "env \<Rightarrow> jsdef \<Rightarrow> js_error + control option" where
  "create E definition =
     (if definition = DNull \<or> truthy (d_type definition) = None then Inr None
      else
        (let validation = validateDefinition E definition
         in if \<not> isValid validation \<and> filter critical (errors validation) \<noteq> [] then Inr None
            else
              (let sanitizedDefinition =
                     (case sanitizedDefinition validation of Some s \<Rightarrow> s | None \<Rightarrow> definition)
               in case (case truthy (d_type sanitizedDefinition) of
                          Some t \<Rightarrow> controlTypes E t | None \<Rightarrow> None) of
                    None \<Rightarrow>
                      (case new_Control E sanitizedDefinition of
                         Inl err \<Rightarrow> Inl err
                       | Inr c \<Rightarrow> Inr (Some c))
                  | Some controlTypeGetter \<Rightarrow>
                      (case (case controlTypeGetter of
                               GetterThrows \<Rightarrow> Inl (TypeError ''getter threw'')
                             | Returns None \<Rightarrow> new_Control E sanitizedDefinition
                             | Returns (Some ControlClass) \<Rightarrow> new_Class E ControlClass sanitizedDefinition) of
                         Inr c \<Rightarrow> Inr (Some c)
                       | Inl error \<Rightarrow>
                           (case new_Control E sanitizedDefinition of
                              Inr c \<Rightarrow> Inr (Some c)
                            | Inl fallbackError \<Rightarrow> Inr None)))))"

section \<open>Properties of the factory\<close>

lemma str_includes_prefix: "str_includes (sub @ rest) sub"
proof (cases "sub @ rest")
  case Nil
  then show ?thesis by simp
next
  case (Cons a list)
  have "take (length sub) (sub @ rest) = sub" by simp
  then show ?thesis
    unfolding Cons by simp
qed

lemma str_includes_after: "str_includes s sub \<Longrightarrow> str_includes (p @ s) sub"
  by (induction p) auto

lemma critical_invalid_type: "critical (''Invalid control type: '' @ rest)"
proof -
  have "str_includes (''Invalid control type'' @ ('': '' @ rest)) ''Invalid control type''"
    by (rule str_includes_prefix)
  then show ?thesis by (simp add: critical_def)
qed

definition env0 :: env where
  "env0 = \<lparr>has_Validation = True, has_Control = True,
           controlTypes = map_of (defaultControlTypes (\<lambda>c. True)),
           ctor_throws = (\<lambda>c d. False),
           genUID = (\<lambda>p. p @ ''-1'')\<rparr>"

lemma create_null_without_engine:
  assumes "t \<noteq> []" and "controlTypes E t = None" and "\<not> has_Validation E"
  shows "create E (Def (Some t) u cs) = Inr None"
proof -
  have ty: "truthy (Some t) = Some t"
    using assms(1) by (simp add: truthy_def)
  have "errors (validateDefinition E (Def (Some t) u cs)) = [''Invalid control type: '' @ t]"
    using assms by (simp add: validateDefinition_def basicValidation_def ty isValidType_def)
  moreover have "\<not> isValid (validateDefinition E (Def (Some t) u cs))"
    using assms by (simp add: validateDefinition_def basicValidation_def ty isValidType_def)
  ultimately show ?thesis
    using critical_invalid_type [of t] by (simp add: create_def ty Let_def)
qed

lemma create_null_invalid_type:
  assumes "t \<noteq> []" and "has_Validation E" and "t \<notin> set VALID_CONTROL_TYPES"
  shows "create E (Def (Some t) u cs) = Inr None"
proof -
  have ty: "truthy (Some t) = Some t"
    using assms(1) by (simp add: truthy_def)
  define msg where "msg = ''Invalid control type: '' @ (t @ ''. Valid types: '' @ join '', '' VALID_CONTROL_TYPES)"
  have "msg \<in> set (validation_errors (Def (Some t) u cs))"
    using assms(3) by (simp add: ty msg_def)
  moreover have "critical msg"
    unfolding msg_def by (rule critical_invalid_type)
  ultimately have "filter critical (validation_errors (Def (Some t) u cs)) \<noteq> []"
    by (auto simp: filter_empty_conv)
  moreover from this have "validation_errors (Def (Some t) u cs) \<noteq> []"
    by auto
  ultimately show ?thesis
    using assms(2) by (simp add: create_def ty Let_def validateDefinition_def validateControlDefinition_def)
qed

lemma create_base_control:
  assumes "t \<noteq> []" and "controlTypes E t = None" and "has_Validation E"
      and "filter critical (validation_errors (Def (Some t) u cs)) = []" and "has_Control E"
  shows "create E (Def (Some t) u cs) =
           Inr (Some (construct E Base
                 (Def (Some t) (Some (case truthy u of Some x \<Rightarrow> x | None \<Rightarrow> genUID E t)) cs)))"
proof -
  have ty: "truthy (Some t) = Some t"
    using assms(1) by (simp add: truthy_def)
  show ?thesis
    using assms(2-)
    by (simp add: create_def ty Let_def validateDefinition_def validateControlDefinition_def
        new_Control_def split: option.splits)
qed

text \<open>
  C2, as the code has it. For a definition whose type is a non-empty string \<open>t\<close> without
  entry in the registry, \<^verbatim>\<open>create\<close> returns \<^verbatim>\<open>null\<close> whenever validation calls the type
  invalid: always with the factory's own validation (used when \<^verbatim>\<open>window.Validation\<close> is
  not installed), and with the Validation engine when \<open>t\<close> is not one of its valid types.
  It returns a base control, built from the sanitized definition, when the Validation
  engine reports no critical error (so \<open>t\<close> is a valid type that the registry has lost) and
  \<^verbatim>\<open>window.Control\<close> is the base class.
\<close>

theorem create_unregistered_type:
  assumes "t \<noteq> []" and "controlTypes E t = None"
  shows "(\<not> has_Validation E \<longrightarrow> create E (Def (Some t) u cs) = Inr None)
       \<and> (has_Validation E \<and> t \<notin> set VALID_CONTROL_TYPES \<longrightarrow> create E (Def (Some t) u cs) = Inr None)
       \<and> (has_Validation E \<and> filter critical (validation_errors (Def (Some t) u cs)) = [] \<and> has_Control E \<longrightarrow>
            create E (Def (Some t) u cs) =
              Inr (Some (construct E Base
                    (Def (Some t) (Some (case truthy u of Some x \<Rightarrow> x | None \<Rightarrow> genUID E t)) cs))))"
  using create_null_without_engine [OF assms] create_null_invalid_type [OF assms(1)]
    create_base_control [OF assms]
  by blast

lemma env0_unknown_type:
  "controlTypes env0 ''not-a-real-type'' = None" "has_Control env0" "has_Validation env0"
  "''not-a-real-type'' \<notin> set VALID_CONTROL_TYPES"
  by (simp_all add: env0_def defaultControlTypes_def VALID_CONTROL_TYPES_def)

lemma env0_label_unregistered:
  "controlTypes (env0\<lparr>controlTypes := (controlTypes env0)(''label'' := None)\<rparr>) ''label'' = None"
  by simp

theorem create_unregistered_type_witness:
  "create (env0\<lparr>has_Validation := False\<rparr>) (Def (Some ''not-a-real-type'') (Some ''x1'') []) = Inr None
   \<and> create env0 (Def (Some ''not-a-real-type'') (Some ''x1'') []) = Inr None
   \<and> create (env0\<lparr>controlTypes := (controlTypes env0)(''label'' := None)\<rparr>)
         (Def (Some ''label'') (Some ''l1'') [])
       = Inr (Some \<lparr>UID = ''l1'', ctype = ''label'', cclass = Base, children = [], element = None,
                     eventListeners = []\<rparr>)"
proof -
  have nreg: "controlTypes env0 ''not-a-real-type'' = None"
    by (simp add: env0_def defaultControlTypes_def)
  have ninv: "''not-a-real-type'' \<notin> set VALID_CONTROL_TYPES"
    by (simp add: VALID_CONTROL_TYPES_def)
  have lab: "filter critical (validation_errors (Def (Some ''label'') (Some ''l1'') [])) = []"
    by (simp add: truthy_def VALID_CONTROL_TYPES_def)
  have a: "create (env0\<lparr>has_Validation := False\<rparr>) (Def (Some ''not-a-real-type'') (Some ''x1'') []) = Inr None"
    using create_unregistered_type [of "''not-a-real-type''" "env0\<lparr>has_Validation := False\<rparr>" "Some ''x1''" "[]"] nreg
    by simp
  have b: "create env0 (Def (Some ''not-a-real-type'') (Some ''x1'') []) = Inr None"
    using create_unregistered_type [of "''not-a-real-type''" env0 "Some ''x1''" "[]"] nreg ninv
    by (simp add: env0_def)
  have c: "create (env0\<lparr>controlTypes := (controlTypes env0)(''label'' := None)\<rparr>)
             (Def (Some ''label'') (Some ''l1'') [])
           = Inr (Some \<lparr>UID = ''l1'', ctype = ''label'', cclass = Base, children = [], element = None,
                         eventListeners = []\<rparr>)"
    using create_unregistered_type [of "''label''" "env0\<lparr>controlTypes := (controlTypes env0)(''label'' := None)\<rparr>"
        "Some ''l1''" "[]"] lab
    by (simp add: env0_def construct_def truthy_def)
  show ?thesis using a b c by simp
qed

text \<open>
  C2 as stated fails: the type \<^verbatim>\<open>not-a-real-type\<close> is not registered, \<^verbatim>\<open>window.Control\<close>
  is available, and \<^verbatim>\<open>create\<close> returns \<^verbatim>\<open>null\<close>, with the Validation engine and without.
\<close>

theorem create_unknown_type_counterexample:
  "controlTypes env0 ''not-a-real-type'' = None \<and> has_Control env0
   \<and> create env0 (Def (Some ''not-a-real-type'') (Some ''x1'') []) = Inr None
   \<and> create (env0\<lparr>has_Validation := False\<rparr>) (Def (Some ''not-a-real-type'') (Some ''x1'') []) = Inr None"
proof -
  have "create env0 (Def (Some ''not-a-real-type'') (Some ''x1'') []) = Inr None"
    by (rule create_null_invalid_type) (simp_all add: env0_unknown_type)
  moreover have "create (env0\<lparr>has_Validation := False\<rparr>)
                   (Def (Some ''not-a-real-type'') (Some ''x1'') []) = Inr None"
    by (rule create_null_without_engine) (simp_all add: env0_unknown_type)
  ultimately show ?thesis
    by (simp add: env0_unknown_type)
qed

section \<open>Rendering, events and teardown of controls (base-control.js)\<close>

text \<open>
  A control with the controls of its \<^verbatim>\<open>childControls\<close> array, each with its own. The
  parent back-reference of a child is its place in the tree.
\<close>

datatype ctree = CTree (node: control) (childControls: "ctree list")

definition blank_element :: element where
  "blank_element = \<lparr>el_uidEvent = None, el_listeners = [], parentNode = None, childNodes = []\<rparr>"

text \<open>\<^verbatim>\<open>parent.removeChild(child)\<close> and \<^verbatim>\<open>parent.appendChild(child)\<close> on the element store.\<close>

definition removeChild :: "nat \<Rightarrow> nat \<Rightarrow> world \<Rightarrow> world" where
  "removeChild p c w =
     (let w1 = w\<lparr>elements := (elements w)(p \<mapsto> (the_element w p)\<lparr>childNodes := filter (\<lambda>x. x \<noteq> c) (childNodes (the_element w p))\<rparr>)\<rparr>
      in w1\<lparr>elements := (elements w1)(c \<mapsto> (the_element w1 c)\<lparr>parentNode := None\<rparr>)\<rparr>)"

definition appendChild :: "nat \<Rightarrow> nat \<Rightarrow> world \<Rightarrow> world" where
  "appendChild p c w =
     (let w1 = (case parentNode (the_element w c) of Some q \<Rightarrow> removeChild q c w | None \<Rightarrow> w);
          w2 = w1\<lparr>elements := (elements w1)(p \<mapsto> (the_element w1 p)\<lparr>childNodes := childNodes (the_element w1 p) @ [c]\<rparr>)\<rparr>
      in w2\<lparr>elements := (elements w2)(c \<mapsto> (the_element w2 c)\<lparr>parentNode := Some p\<rparr>)\<rparr>)"

lemma create_children_size:
  assumes "create E d = Inr (Some cc)"
  shows "size_list size (children cc) < size d"
proof (cases d)
  case DNull
  with assms show ?thesis by (simp add: create_def)
next
  case (Def t u cs)
  have san: "d_children (case sanitizedDefinition (validateDefinition E d) of Some s \<Rightarrow> s | None \<Rightarrow> d) = cs"
    using Def by (simp add: validateDefinition_def validateControlDefinition_def basicValidation_def Let_def)
  have "children cc = d_children (case sanitizedDefinition (validateDefinition E d) of Some s \<Rightarrow> s | None \<Rightarrow> d)"
    using assms
    by (auto simp: create_def Let_def new_Control_def new_Class_def construct_def
        split: if_splits option.splits sum.splits getter.splits cls.splits)
  then show ?thesis
    using san Def by simp
qed

text \<open>
  \<^verbatim>\<open>render\<close> of the base class with its \<^verbatim>\<open>renderChildren\<close>, which the concrete classes
  inherit unless they place their children themselves (those overrides are not
  modelled). \<^verbatim>\<open>createElement\<close> takes the next element, \<^verbatim>\<open>attachEvents\<close> records the control
  with the DataManager, and \<^verbatim>\<open>renderChildren\<close> goes through the child definitions: each is
  created by the factory, given its parent, pushed onto \<^verbatim>\<open>childControls\<close>, rendered, and
  its element appended. Assigning \<^verbatim>\<open>parent\<close> to what the factory returned throws when that
  is \<^verbatim>\<open>null\<close>. An exception ends the whole \<^verbatim>\<open>forEach\<close> and leaves \<^verbatim>\<open>render\<close>; the result
  has the controls and the state reached by then.
\<close>

function Control_render :: "env \<Rightarrow> control \<Rightarrow> world \<Rightarrow> js_error option \<times> ctree \<times> world"
  and renderChildren :: "env \<Rightarrow> jsdef list \<Rightarrow> nat \<Rightarrow> ctree list \<times> world \<Rightarrow> js_error option \<times> ctree list \<times> world"
where
  "Control_render E c w =
     (let el = created w;
          w1 = w\<lparr>created := el + 1, elements := (elements w)(el \<mapsto> blank_element)\<rparr>;
          w2 = (if has_DataManager w1 then w1\<lparr>elementMap := (elementMap w1)(el \<mapsto> [''control''])\<rparr> else w1);
          r = renderChildren E (children c) el ([], w2)
      in (fst r, CTree (c\<lparr>element := Some el\<rparr>) (fst (snd r)), snd (snd r)))"
| "renderChildren E [] el st = (None, st)"
| "renderChildren E (childDef # ds) el st =
     (case create E childDef of
        Inl err \<Rightarrow> (Some err, st)
      | Inr None \<Rightarrow> (Some (TypeError ''Cannot set properties of null (setting 'parent')''), st)
      | Inr (Some childControl) \<Rightarrow>
          (case Control_render E childControl (snd st) of
             (Some err, ct, w') \<Rightarrow> (Some err, fst st @ [ct], w')
           | (None, ct, w') \<Rightarrow>
               renderChildren E ds el
                 (fst st @ [ct],
                  (case element (node ct) of Some childElement \<Rightarrow> appendChild el childElement w' | None \<Rightarrow> w'))))"
  by pat_completeness auto
termination
proof (relation "measure (\<lambda>x. case x of
                   Inl (E, c, w) \<Rightarrow> 2 * size_list size (children c) + 1
                 | Inr (E, ds, el, st) \<Rightarrow> 2 * size_list size ds)")
  show "wf (measure (\<lambda>x. case x of
                   Inl (E, c, w) \<Rightarrow> 2 * size_list size (children c) + 1
                 | Inr (E, ds, el, st) \<Rightarrow> 2 * size_list size ds))"
    by simp
qed (auto dest: create_children_size)





text \<open>\<^verbatim>\<open>control.on(event, callback)\<close>.\<close>

definition control_on :: "string \<Rightarrow> callback \<Rightarrow> control \<Rightarrow> control" where
  "control_on event cb c =
     c\<lparr>eventListeners := AList.update event (lookup_list (eventListeners c) event @ [cb]) (eventListeners c)\<rparr>"





section \<open>Properties of event bubbling\<close>

lemma js_set_twice [simp]: "js_set (js_set d k a) k b = js_set d k b"
  by (simp add: js_set_def)











section \<open>Properties of rendering\<close>

lemma create_without_type: "create E (Def None u cs) = Inr None"
  by (simp add: create_def truthy_def)

lemma create_null_definition: "create E DNull = Inr None"
  by (simp add: create_def)

text \<open>
  A child definition for which the factory returns \<^verbatim>\<open>null\<close> ends \<^verbatim>\<open>renderChildren\<close> with a
  \<^verbatim>\<open>TypeError\<close>: the child controls and the state stay as they were before that child, and
  the definitions behind it are never looked at.
\<close>

lemma renderChildren_null_child:
  assumes "create E d = Inr None"
  shows "renderChildren E (d # ds) el st =
           (Some (TypeError ''Cannot set properties of null (setting 'parent')''), st)"
  using assms by simp

definition panelDef :: jsdef where
  "panelDef = Def (Some ''panel'') (Some ''p'')
                [Def None (Some ''x'') [], Def (Some ''label'') (Some ''l'') []]"

definition panelCtl :: control where
  "panelCtl = \<lparr>UID = ''p'', ctype = ''panel'', cclass = Class ''PanelControl'',
               children = [Def None (Some ''x'') [], Def (Some ''label'') (Some ''l'') []],
               element = None, eventListeners = []\<rparr>"

lemma not_critical_missing_type:
  "\<not> critical ''Child at index 0: Missing required property: type''"
  by (simp add: critical_def)

lemma validate_panelDef:
  "validateDefinition env0 panelDef =
     \<lparr>isValid = False, errors = [''Child at index 0: Missing required property: type''],
      sanitizedDefinition = Some panelDef\<rparr>"
  by code_simp

lemma create_panelDef: "create env0 panelDef = Inr (Some panelCtl)"
proof -
  have ty: "truthy (d_type panelDef) = Some ''panel''" and nn: "panelDef \<noteq> DNull"
    by (simp_all add: panelDef_def truthy_def)
  have reg: "controlTypes env0 ''panel'' = Some (Returns (Some (Class ''PanelControl'')))"
    by (simp add: env0_def defaultControlTypes_def)
  have nc: "new_Class env0 (Class ''PanelControl'') panelDef = Inr panelCtl"
    by (simp add: new_Class_def construct_def panelCtl_def env0_def)
       (simp add: panelDef_def truthy_def)
  show ?thesis
    by (simp add: create_def validate_panelDef ty nn reg nc not_critical_missing_type Let_def)
qed

text \<open>
  C1. A panel with two child definitions, the first without \<^verbatim>\<open>type\<close>, the second a label.
  The factory creates the panel (the child's validation error is not critical) and returns
  \<^verbatim>\<open>null\<close> for the first child. Rendering the panel then throws at that child: the panel
  has no child control and its element no child node, so the label behind the failing
  child is neither constructed nor appended.
\<close>

theorem render_aborts_at_failing_child:
  "create env0 panelDef = Inr (Some panelCtl)
   \<and> create env0 (Def None (Some ''x'') []) = Inr None
   \<and> fst (Control_render env0 panelCtl world0)
       = Some (TypeError ''Cannot set properties of null (setting 'parent')'')
   \<and> childControls (fst (snd (Control_render env0 panelCtl world0))) = []
   \<and> childNodes (the_element (snd (snd (Control_render env0 panelCtl world0))) (created world0)) = []"
  by (simp add: create_panelDef create_without_type panelCtl_def world0_def Let_def
      the_element_def blank_element_def)


section \<open>Properties of teardown\<close>


fun rendered :: "ctree \<Rightarrow> bool" where
  "rendered (CTree c kids) = (element c \<noteq> None \<and> (\<forall>k \<in> set kids. rendered k))"


text \<open>A step that leaves the registry, the installed globals and every element's uid alone.\<close>

definition quiet :: "world \<Rightarrow> world \<Rightarrow> bool" where
  "quiet w w' =
     (eventRegistry w' = eventRegistry w \<and> has_EventHandler w' = has_EventHandler w
      \<and> has_DataManager w' = has_DataManager w
      \<and> (\<forall>el. truthy_uid (the_element w' el) = truthy_uid (the_element w el)))"

lemma quiet_refl [simp]: "quiet w w"
  by (simp add: quiet_def)



















end
